theory Spec2Isabelle
  imports Main "HOL-Library.Sublist"
begin

section \<open>The library-scaffolding generator (app/index.js and its earlier variant)\<close>

text \<open>
  The generator is a bag of phase methods run in the order initializing, prompting,
  configuring, writing, install. Each method is embedded as a function over the pieces of
  generator state it touches.
\<close>

subsection \<open>Strings\<close>

text \<open>
  A JavaScript string is a sequence of UTF-16 code units; a code unit is a number below
  \<open>65536\<close>. \<open>lit\<close> is a string written in the source text. Property names, package names
  and template names are only ever compared, and stay names.
\<close>

type_synonym jsstring = "nat list"

definition lit :: "string \<Rightarrow> jsstring" where
  "lit s = map of_char s"

definition is_high :: "nat \<Rightarrow> bool" where
  "is_high u = (0xD800 \<le> u \<and> u < 0xDC00)"

definition is_low :: "nat \<Rightarrow> bool" where
  "is_low u = (0xDC00 \<le> u \<and> u < 0xE000)"

subsection \<open>Derived names: packageName and varName\<close>

text \<open>
  \<^verbatim>\<open>ans.libName.replace(/^node-/, '')\<close>: the pattern is anchored at the start of the string and
  the replacement is empty.
\<close>

definition replace_node_prefix :: "jsstring \<Rightarrow> jsstring" where
  "replace_node_prefix s = (if take 5 s = lit ''node-'' then drop 5 s else s)"

text \<open>
  \<^verbatim>\<open>.replace(/[.-]?js$/, '')\<close>: without the global flag the leftmost match is replaced. The
  pattern matches at a position exactly when the rest of the string from there is
  \<open>.js\<close>, \<open>-js\<close> or \<open>js\<close>; the scan tries the positions from left to right.
\<close>

definition js_suffix_match :: "jsstring \<Rightarrow> bool" where
  "js_suffix_match s = (s = lit ''.js'' \<or> s = lit ''-js'' \<or> s = lit ''js'')"

fun replace_js_suffix :: "jsstring \<Rightarrow> jsstring" where
  "replace_js_suffix [] = []"
| "replace_js_suffix (c # cs) =
     (if js_suffix_match (c # cs) then [] else c # replace_js_suffix cs)"

definition packageName :: "jsstring \<Rightarrow> jsstring" where
  "packageName libName = replace_js_suffix (replace_node_prefix libName)"

text \<open>
  \<^verbatim>\<open>packageName.replace(/[-_.](.)/g, function(m, p) { return p.toUpperCase(); })\<close>:
  every match is two code units, a separator and one code unit that is not a line
  terminator; the scan resumes after the match. \<open>toUpperCase\<close> belongs to the language;
  it is the parameter \<open>upper\<close>, which gives the upper-cased string of a one-unit string.
\<close>

definition is_sep :: "nat \<Rightarrow> bool" where
  "is_sep c = (c \<in> set (lit ''-_.''))"

definition line_terminator :: "nat \<Rightarrow> bool" where
  "line_terminator c = (c = 0x0A \<or> c = 0x0D \<or> c = 0x2028 \<or> c = 0x2029)"

fun replace_sep_global :: "(nat \<Rightarrow> jsstring) \<Rightarrow> jsstring \<Rightarrow> jsstring" where
  "replace_sep_global upper (c # d # cs) =
     (if is_sep c \<and> \<not> line_terminator d then upper d @ replace_sep_global upper cs
      else c # replace_sep_global upper (d # cs))"
| "replace_sep_global upper cs = cs"

definition varName :: "(nat \<Rightarrow> jsstring) \<Rightarrow> jsstring \<Rightarrow> jsstring" where
  "varName upper pkg = replace_sep_global upper pkg"

text \<open>
  The examples take for \<open>upper\<close> what \<open>toUpperCase\<close> does on the letters \<open>a\<close> to \<open>z\<close> and
  on the lower-case letters from U+00E0 to U+00FE, where it subtracts 32; their strings
  have no other character that \<open>toUpperCase\<close> changes.
\<close>

definition upper_example :: "nat \<Rightarrow> jsstring" where
  "upper_example c =
     (if (97 \<le> c \<and> c \<le> 122) \<or> (0xE0 \<le> c \<and> c \<le> 0xFE \<and> c \<noteq> 0xF7) then [c - 32] else [c])"

text \<open>
  The camel-casing as the specification words it: every separator is removed and the
  character following a separator is upper-cased.
\<close>

fun camel_from :: "(nat \<Rightarrow> jsstring) \<Rightarrow> bool \<Rightarrow> jsstring \<Rightarrow> jsstring" where
  "camel_from upper up [] = []"
| "camel_from upper up (c # cs) =
     (if is_sep c then camel_from upper True cs
      else (if up then upper c else [c]) @ camel_from upper False cs)"

definition camelCase_spec :: "(nat \<Rightarrow> jsstring) \<Rightarrow> jsstring \<Rightarrow> jsstring" where
  "camelCase_spec upper s = camel_from upper False s"

text \<open>Every separator is directly followed by a code unit the pattern's dot accepts and
  that is not itself a separator.\<close>

fun seps_followed :: "jsstring \<Rightarrow> bool" where
  "seps_followed [] = True"
| "seps_followed [c] = (\<not> is_sep c)"
| "seps_followed (c # d # cs) =
     ((\<not> is_sep c \<or> (\<not> is_sep d \<and> \<not> line_terminator d)) \<and> seps_followed (d # cs))"

subsection \<open>JavaScript values\<close>

text \<open>
  Values as the generator sees them: what \<open>JSON.parse\<close> can return, plus \<open>undefined\<close>.
  Of a number only its being zero is ever inspected. An object is the list of its
  members; a parsed object has distinct keys.
\<close>

datatype jsval =
    JUndefined
  | JNull
  | JBool bool
  | JNum int
  | JStr jsstring
  | JArr "jsval list"
  | JObj "(string \<times> jsval) list"

fun truthy :: "jsval \<Rightarrow> bool" where
  "truthy JUndefined = False"
| "truthy JNull = False"
| "truthy (JBool b) = b"
| "truthy (JNum n) = (n \<noteq> 0)"
| "truthy (JStr s) = (s \<noteq> [])"
| "truthy (JArr xs) = True"
| "truthy (JObj kvs) = True"

text \<open>\<^verbatim>\<open>a || b\<close> on two values already evaluated.\<close>

definition js_or :: "jsval \<Rightarrow> jsval \<Rightarrow> jsval" where
  "js_or a b = (if truthy a then a else b)"

text \<open>\<^verbatim>\<open>typeof v === 'object'\<close>, which holds of \<open>null\<close> too.\<close>

fun typeof_object :: "jsval \<Rightarrow> bool" where
  "typeof_object JNull = True"
| "typeof_object (JArr xs) = True"
| "typeof_object (JObj kvs) = True"
| "typeof_object v = False"

text \<open>
  The errors of the model: a \<open>TypeError\<close> thrown by the language (a property of
  \<open>undefined\<close> or \<open>null\<close>, an index into a failed match, a call of what is no function), the
  \<open>SyntaxError\<close> of a manifest that does not parse, and an error object that an external
  library reports to its callback.
\<close>

datatype error = TypeError | SyntaxError | Reported string

definition bindE :: "error + 'a \<Rightarrow> ('a \<Rightarrow> error + 'b) \<Rightarrow> error + 'b" where
  "bindE m f = (case m of Inl e \<Rightarrow> Inl e | Inr x \<Rightarrow> f x)"

text \<open>
  \<^verbatim>\<open>v.k\<close> for the member names the generator reads (\<open>user\<close>, \<open>author\<close>, \<open>name\<close>, \<open>email\<close>,
  \<open>url\<close>, \<open>repository\<close>, \<open>version\<close>, \<open>main\<close>, \<open>description\<close>): none of them is inherited
  from a prototype, so a primitive or an array yields \<open>undefined\<close>.
\<close>

fun get_prop :: "jsval \<Rightarrow> string \<Rightarrow> error + jsval" where
  "get_prop JUndefined k = Inl TypeError"
| "get_prop JNull k = Inl TypeError"
| "get_prop (JObj kvs) k = Inr (case map_of kvs k of Some v \<Rightarrow> v | None \<Rightarrow> JUndefined)"
| "get_prop v k = Inr JUndefined"

text \<open>
  The generator's own objects (\<open>this.conf\<close>, \<open>this.context\<close>, the store behind
  \<open>this.config\<close>) are maps from property names; reading an absent property gives
  \<open>undefined\<close>.
\<close>

type_synonym jsobj = "string \<Rightarrow> jsval option"

definition field :: "jsobj \<Rightarrow> string \<Rightarrow> jsval" where
  "field obj k = (case obj k of Some v \<Rightarrow> v | None \<Rightarrow> JUndefined)"

text \<open>\<^verbatim>\<open>obj.k = v || obj.k\<close>\<close>

definition assign_or :: "string \<Rightarrow> jsval \<Rightarrow> jsobj \<Rightarrow> jsobj" where
  "assign_or k v obj = obj(k \<mapsto> js_or v (field obj k))"

subsection \<open>initializing: the Context Resolver\<close>

text \<open>The phase is the same in both variants of the generator, up to the final copy of
  \<open>conf\<close> into \<open>context\<close>.\<close>

record rstate =
  conf :: jsobj
  log :: "error list"

datatype git_result = GitErr error | GitConf jsval

datatype npm_result = NpmErr error | NpmConf jsobj

datatype manifest = Absent | Malformed | Parsed jsval

record resolver_env =
  destPath :: jsstring
  git :: git_result
  npm :: npm_result
  manifest_file :: manifest

definition init_default :: rstate where
  "init_default =
     \<lparr>conf = [''main'' \<mapsto> JStr (lit ''index.js''), ''version'' \<mapsto> JStr (lit ''0.0.0'')], log = []\<rparr>"

definition slash :: nat where
  "slash = of_char (CHR ''/'')"

definition not_slash :: "nat \<Rightarrow> bool" where
  "not_slash c = (c \<noteq> slash)"

text \<open>
  \<^verbatim>\<open>/\/([^\/]+\/?)$/\<close> tried right after a slash: the longest run without a slash, then an
  optional slash, then the end of the string. The group is the run with that slash.
\<close>

definition dir_match_here :: "jsstring \<Rightarrow> jsstring option" where
  "dir_match_here rest =
     (let g = takeWhile not_slash rest; r = dropWhile not_slash rest
      in if g \<noteq> [] \<and> (r = [] \<or> r = [slash]) then Some (g @ r) else None)"

fun dir_match :: "jsstring \<Rightarrow> jsstring option" where
  "dir_match [] = None"
| "dir_match (c # cs) =
     (if c = slash
      then (case dir_match_here cs of Some g \<Rightarrow> Some g | None \<Rightarrow> dir_match cs)
      else dir_match cs)"

text \<open>
  \<^verbatim>\<open>this.conf.libName = this.destinationPath().match(/\/([^\/]+\/?)$/)[1] || this.conf.libName\<close>:
  indexing the \<open>null\<close> of a failed match throws.
\<close>

definition init_dir :: "jsstring \<Rightarrow> rstate \<Rightarrow> error + rstate" where
  "init_dir path st =
     (case dir_match path of
        None \<Rightarrow> Inl TypeError
      | Some g \<Rightarrow> Inr (st\<lparr>conf := assign_or ''libName'' (JStr g) (conf st)\<rparr>))"

text \<open>The callback of \<open>gitconf\<close>: a reported error is logged; otherwise \<open>conf.user.name\<close> and
  \<open>conf.user.email\<close> are read without a guard on \<open>conf.user\<close>.\<close>

definition gitConfig :: "git_result \<Rightarrow> rstate \<Rightarrow> error + rstate" where
  "gitConfig g st =
     (case g of
        GitErr e \<Rightarrow> Inr (st\<lparr>log := log st @ [e]\<rparr>)
      | GitConf c \<Rightarrow>
          bindE (get_prop c ''user'') (\<lambda>u.
          bindE (get_prop u ''name'') (\<lambda>n.
          bindE (get_prop u ''email'') (\<lambda>em.
            Inr (st\<lparr>conf := assign_or ''email'' em (assign_or ''name'' n (conf st))\<rparr>)))))"

text \<open>The callback of \<open>npmconf.load\<close>; \<open>conf.get(k)\<close> reads the loaded configuration.\<close>

definition npmConfig :: "npm_result \<Rightarrow> rstate \<Rightarrow> rstate" where
  "npmConfig n st =
     (case n of
        NpmErr e \<Rightarrow> st\<lparr>log := log st @ [e]\<rparr>
      | NpmConf c \<Rightarrow>
          st\<lparr>conf :=
            assign_or ''npmKey'' (field c ''_auth'')
              (assign_or ''url'' (field c ''url'')
                (assign_or ''email'' (field c ''email'')
                  (assign_or ''name'' (field c ''name'') (conf st))))\<rparr>)"

text \<open>\<^verbatim>\<open>this.fs.readJSON(this.destinationPath('package.json'), {})\<close>: the default for an absent
  file, a throw for one that does not parse.\<close>

definition readJSON :: "manifest \<Rightarrow> error + jsval" where
  "readJSON m =
     (case m of Absent \<Rightarrow> Inr (JObj []) | Malformed \<Rightarrow> Inl SyntaxError | Parsed j \<Rightarrow> Inr j)"

text \<open>
  \<^verbatim>\<open>/\/([^\/]+).git$/\<close> tried right after a slash: a non-empty run without a slash, one
  character that is no line terminator (the dot is not escaped), then \<open>git\<close> and the end
  of the string. The lengths fix the split, so the group is all but the last four
  characters.
\<close>

definition repo_match_here :: "jsstring \<Rightarrow> jsstring option" where
  "repo_match_here rest =
     (let n = length rest
      in if 5 \<le> n \<and> drop (n - 3) rest = lit ''git'' \<and> \<not> line_terminator (rest ! (n - 4))
            \<and> list_all not_slash (take (n - 4) rest)
         then Some (take (n - 4) rest) else None)"

fun repo_match :: "jsstring \<Rightarrow> jsstring option" where
  "repo_match [] = None"
| "repo_match (c # cs) =
     (if c = slash
      then (case repo_match_here cs of Some g \<Rightarrow> Some g | None \<Rightarrow> repo_match cs)
      else repo_match cs)"

text \<open>\<^verbatim>\<open>url.match(/\/([^\/]+).git$/)[1]\<close> for a truthy \<open>url\<close>: only a string has \<open>match\<close>.\<close>

definition repo_name :: "jsval \<Rightarrow> error + jsval" where
  "repo_name u =
     (case u of
        JStr s \<Rightarrow> (case repo_match s of None \<Rightarrow> Inl TypeError | Some g \<Rightarrow> Inr (JStr g))
      | _ \<Rightarrow> Inl TypeError)"

text \<open>The statements of the \<open>try\<close> block of \<open>packageJson\<close>, each on the parsed manifest.\<close>

type_synonym stmt = "jsobj \<Rightarrow> error + jsobj"

text \<open>\<^verbatim>\<open>this.conf.name = (json.author && json.author.name) || this.conf.name\<close>\<close>

definition stmt_name :: "jsval \<Rightarrow> stmt" where
  "stmt_name json c =
     bindE (get_prop json ''author'') (\<lambda>a.
       if truthy a then bindE (get_prop a ''name'') (\<lambda>n. Inr (assign_or ''name'' n c))
       else Inr (assign_or ''name'' a c))"

text \<open>\<^verbatim>\<open>if (typeof json.author === 'object') { email ...; url ... }\<close>\<close>

definition stmt_author :: "jsval \<Rightarrow> stmt" where
  "stmt_author json c =
     bindE (get_prop json ''author'') (\<lambda>a.
       if typeof_object a
       then bindE (get_prop a ''email'') (\<lambda>em.
            bindE (get_prop a ''url'') (\<lambda>u.
              Inr (assign_or ''url'' u (assign_or ''email'' em c))))
       else Inr c)"

text \<open>\<^verbatim>\<open>this.conf.libName = (json.repository && json.repository.url &&
  json.repository.url.match(...)[1]) || json.name || this.conf.libName\<close>\<close>

definition stmt_libName :: "jsval \<Rightarrow> stmt" where
  "stmt_libName json c =
     bindE (get_prop json ''repository'') (\<lambda>r.
     bindE (if \<not> truthy r then Inr r
            else bindE (get_prop r ''url'') (\<lambda>u. if \<not> truthy u then Inr u else repo_name u))
       (\<lambda>v.
     bindE (get_prop json ''name'') (\<lambda>nm.
       Inr (c(''libName'' \<mapsto> js_or v (js_or nm (field c ''libName'')))))))"

text \<open>\<^verbatim>\<open>this.conf.k = json.member || this.conf.k\<close>\<close>

definition stmt_copy :: "string \<Rightarrow> string \<Rightarrow> jsval \<Rightarrow> stmt" where
  "stmt_copy k member json c = bindE (get_prop json member) (\<lambda>v. Inr (assign_or k v c))"

text \<open>The statements run in order; the first throw leaves the block, and what the earlier
  statements assigned stays.\<close>

fun run_try :: "stmt list \<Rightarrow> jsobj \<Rightarrow> jsobj \<times> error option" where
  "run_try [] c = (c, None)"
| "run_try (f # fs) c =
     (case f c of Inl e \<Rightarrow> (c, Some e) | Inr c' \<Rightarrow> run_try fs c')"

definition packageJson_body :: "jsval \<Rightarrow> stmt list" where
  "packageJson_body json =
     [stmt_name json, stmt_author json, stmt_libName json,
      stmt_copy ''version'' ''version'' json, stmt_copy ''main'' ''main'' json,
      stmt_copy ''libDesc'' ''description'' json]"

definition packageJson :: "manifest \<Rightarrow> rstate \<Rightarrow> rstate" where
  "packageJson m st =
     (case readJSON m of
        Inl e \<Rightarrow> st\<lparr>log := log st @ [e]\<rparr>
      | Inr json \<Rightarrow>
          (case run_try (packageJson_body json) (conf st) of
             (c, None) \<Rightarrow> st\<lparr>conf := c\<rparr>
           | (c, Some e) \<Rightarrow> st\<lparr>conf := c, log := log st @ [e]\<rparr>))"

text \<open>The phase: \<open>default\<close>, \<open>dir\<close>, \<open>gitConfig\<close>, \<open>npmConfig\<close>, \<open>packageJson\<close>. \<open>Inl\<close> is an
  error that escapes the phase.\<close>

definition initializing :: "resolver_env \<Rightarrow> error + rstate" where
  "initializing env =
     bindE (init_dir (destPath env) init_default) (\<lambda>s1.
     bindE (gitConfig (git env) s1) (\<lambda>s2.
       Inr (packageJson (manifest_file env) (npmConfig (npm env) s2))))"

text \<open>\<^verbatim>\<open>this.context = objectAssign({}, this.conf)\<close>\<close>

definition init_context :: "rstate \<Rightarrow> jsobj" where
  "init_context st = conf st"

text \<open>The version-control configuration either was reported as an error or has a \<open>user\<close>
  section to read from.\<close>

definition git_has_user :: "git_result \<Rightarrow> bool" where
  "git_has_user g =
     (case g of
        GitErr e \<Rightarrow> True
      | GitConf c \<Rightarrow>
          (case get_prop c ''user'' of
             Inl e \<Rightarrow> False
           | Inr u \<Rightarrow> u \<noteq> JUndefined \<and> u \<noteq> JNull))"

text \<open>A run in which all three sources answer, each with another author.\<close>

definition env_example :: resolver_env where
  "env_example =
     \<lparr>destPath = lit ''/home/me/node-foo'',
      git = GitConf (JObj [(''user'', JObj [(''name'', JStr (lit ''Git Name'')),
              (''email'', JStr (lit ''git@example.org''))])]),
      npm = NpmConf [''name'' \<mapsto> JStr (lit ''Npm Name''), ''url'' \<mapsto> JStr (lit ''http://npm.example.org'')],
      manifest_file = Parsed (JObj [(''name'', JStr (lit ''foo'')),
          (''author'', JObj [(''name'', JStr (lit ''Ann'')), (''email'', JStr (lit ''ann@example.org'')),
              (''url'', JStr (lit ''http://ann.example.org''))])])\<rparr>"

text \<open>A run with the same version-control and package-manager identities, and a manifest
  whose author has a name, an empty email and an empty url.\<close>

definition env_empty_members :: resolver_env where
  "env_empty_members =
     env_example\<lparr>manifest_file := Parsed (JObj [(''name'', JStr (lit ''foo'')),
          (''author'', JObj [(''name'', JStr (lit ''Ann'')), (''email'', JStr []),
              (''url'', JStr [])])])\<rparr>"

text \<open>A property of the Context the resolver ends with; \<open>undefined\<close> when an error escaped.\<close>

definition resolved_field :: "error + rstate \<Rightarrow> string \<Rightarrow> jsval" where
  "resolved_field r k = (case r of Inl e \<Rightarrow> JUndefined | Inr st \<Rightarrow> field (init_context st) k)"

subsection \<open>prompting: the serialized author record\<close>

text \<open>
  The answers of the three author questions. An input question answers with a string; an
  answer that is not there is \<open>undefined\<close>, here \<open>None\<close>.
\<close>

record author_ans =
  authorName :: "jsstring option"
  authorEmail :: "jsstring option"
  authorUrl :: "jsstring option"

text \<open>\<^verbatim>\<open>ans.authorUrl || undefined\<close>\<close>

definition or_undefined :: "jsstring option \<Rightarrow> jsstring option" where
  "or_undefined v = (case v of None \<Rightarrow> None | Some s \<Rightarrow> if s = [] then None else Some s)"

definition hex_digit :: "nat \<Rightarrow> nat" where
  "hex_digit n = lit ''0123456789abcdef'' ! (n mod 16)"

text \<open>
  The quoting of \<open>JSON.stringify\<close>, as the language specification has it: the quotation
  mark and the backslash are escaped, a control character gets its short escape or
  \<open>\u00XX\<close>, a surrogate that is not part of a pair is written as \<open>\uXXXX\<close>, and a
  surrogate pair is kept.
\<close>

definition quote_unit :: "nat \<Rightarrow> jsstring" where
  "quote_unit c =
     (if c = 0x22 then [0x5C, 0x22]
      else if c = 0x5C then [0x5C, 0x5C]
      else if c = 0x08 then 0x5C # lit ''b''
      else if c = 0x0C then 0x5C # lit ''f''
      else if c = 0x0A then 0x5C # lit ''n''
      else if c = 0x0D then 0x5C # lit ''r''
      else if c = 0x09 then 0x5C # lit ''t''
      else if c < 0x20 \<or> is_high c \<or> is_low c
        then 0x5C # lit ''u'' @
             [hex_digit (c div 4096), hex_digit (c div 256), hex_digit (c div 16), hex_digit c]
      else [c])"

fun quote_units :: "jsstring \<Rightarrow> jsstring" where
  "quote_units (h # l # cs) =
     (if is_high h \<and> is_low l then h # l # quote_units cs
      else quote_unit h @ quote_units (l # cs))"
| "quote_units [c] = quote_unit c"
| "quote_units [] = []"

definition quote :: "jsstring \<Rightarrow> jsstring" where
  "quote s = [0x22] @ quote_units s @ [0x22]"

text \<open>The members \<open>JSON.stringify\<close> writes for an object of string-or-undefined
  properties: a property whose value is \<open>undefined\<close> is left out.\<close>

fun json_members :: "(string \<times> jsstring option) list \<Rightarrow> (string \<times> jsstring) list" where
  "json_members [] = []"
| "json_members ((k, None) # kvs) = json_members kvs"
| "json_members ((k, Some s) # kvs) = (k, quote s) # json_members kvs"

fun join :: "jsstring \<Rightarrow> jsstring list \<Rightarrow> jsstring" where
  "join sep [] = []"
| "join sep [x] = x"
| "join sep (x # y # ys) = x @ sep @ join sep (y # ys)"

definition member_line :: "string \<times> jsstring \<Rightarrow> jsstring" where
  "member_line m = lit ''  '' @ quote (lit (fst m)) @ lit '': '' @ snd m"

text \<open>\<^verbatim>\<open>JSON.stringify(obj, null, 2)\<close>\<close>

definition stringify_indent2 :: "(string \<times> jsstring option) list \<Rightarrow> jsstring" where
  "stringify_indent2 kvs =
     (case json_members kvs of
        [] \<Rightarrow> lit ''{}''
      | m # ms \<Rightarrow>
          lit ''{'' @ [0x0A] @ join (lit '','' @ [0x0A]) (map member_line (m # ms))
            @ [0x0A] @ lit ''}'')"

text \<open>\<^verbatim>\<open>.replace(/\n/g, '\n  ')\<close>\<close>

definition indent_newlines :: "jsstring \<Rightarrow> jsstring" where
  "indent_newlines s = concat (map (\<lambda>c. if c = 0x0A then 0x0A # lit ''  '' else [c]) s)"

definition author_record :: "author_ans \<Rightarrow> (string \<times> jsstring option) list" where
  "author_record ans =
     [(''name'', authorName ans), (''email'', authorEmail ans),
      (''url'', or_undefined (authorUrl ans))]"

definition authorJSON :: "author_ans \<Rightarrow> jsstring" where
  "authorJSON ans = indent_newlines (stringify_indent2 (author_record ans))"

text \<open>A string that the quoting leaves as it is: no control character, quotation mark,
  backslash or surrogate.\<close>

definition plain :: "jsstring \<Rightarrow> bool" where
  "plain s =
     list_all (\<lambda>c. 0x20 \<le> c \<and> c \<noteq> 0x22 \<and> c \<noteq> 0x5C \<and> \<not> is_high c \<and> \<not> is_low c) s"

subsection \<open>prompting and configuring: Stored Preferences\<close>

text \<open>The store behind \<open>this.config\<close>, with the keys that \<open>set\<close> has written, in order.\<close>

record config =
  store :: jsobj
  writes :: "string list"

definition config_get :: "config \<Rightarrow> string \<Rightarrow> jsval" where
  "config_get cfg k = field (store cfg) k"

definition config_set :: "string \<Rightarrow> jsval \<Rightarrow> config \<Rightarrow> config" where
  "config_set k v cfg = cfg\<lparr>store := (store cfg)(k \<mapsto> v), writes := writes cfg @ [k]\<rparr>"

record prompt =
  pname :: string
  pdefault :: jsval

text \<open>The questions of \<open>general\<close> in app/index.js with their defaults; the default of
  \<open>copyrightYear\<close> is the current year, \<open>year\<close>.\<close>

definition general_prompts :: "jsobj \<Rightarrow> int \<Rightarrow> prompt list" where
  "general_prompts cnf year =
     [\<lparr>pname = ''libName'', pdefault = field cnf ''libName''\<rparr>,
      \<lparr>pname = ''libDesc'', pdefault = field cnf ''libDesc''\<rparr>,
      \<lparr>pname = ''copyrightYear'', pdefault = JNum year\<rparr>,
      \<lparr>pname = ''gulpfile'', pdefault = JBool False\<rparr>,
      \<lparr>pname = ''browser'', pdefault = JBool True\<rparr>,
      \<lparr>pname = ''promises'', pdefault = JBool True\<rparr>]"

text \<open>\<^verbatim>\<open>var stored = this.config.get(prompt.name);
  prompt.default = stored === undefined ? prompt.default : stored;\<close>\<close>

definition load_previous :: "config \<Rightarrow> prompt \<Rightarrow> prompt" where
  "load_previous cfg p =
     (let stored = config_get cfg (pname p)
      in p\<lparr>pdefault := (if stored = JUndefined then pdefault p else stored)\<rparr>)"

definition general_defaults :: "config \<Rightarrow> jsobj \<Rightarrow> int \<Rightarrow> prompt list" where
  "general_defaults cfg cnf year = map (load_previous cfg) (general_prompts cnf year)"

text \<open>The answers object of the six questions of \<open>general\<close>.\<close>

record general_ans =
  ans_libName :: jsval
  ans_libDesc :: jsval
  ans_copyrightYear :: jsval
  ans_gulpfile :: jsval
  ans_browser :: jsval
  ans_promises :: jsval

definition ans_members :: "general_ans \<Rightarrow> (string \<times> jsval) list" where
  "ans_members a =
     [(''libName'', ans_libName a), (''libDesc'', ans_libDesc a),
      (''copyrightYear'', ans_copyrightYear a), (''gulpfile'', ans_gulpfile a),
      (''browser'', ans_browser a), (''promises'', ans_promises a)]"

fun objectAssign :: "jsobj \<Rightarrow> (string \<times> jsval) list \<Rightarrow> jsobj" where
  "objectAssign obj [] = obj"
| "objectAssign obj ((k, v) # kvs) = objectAssign (obj(k \<mapsto> v)) kvs"

text \<open>
  The callback of \<open>general\<close> in app/index.js: the answers are merged into the context and
  kept as \<open>localStore\<close>, then the names are derived. \<open>ans.libName.replace\<close> needs a string.
  \<open>upper\<close> is the language's \<open>toUpperCase\<close>.
\<close>

definition general_done ::
  "(nat \<Rightarrow> jsstring) \<Rightarrow> general_ans \<Rightarrow> jsobj \<Rightarrow> error + jsobj \<times> (string \<times> jsval) list"
  where
  "general_done upper a ctx =
     (case ans_libName a of
        JStr s \<Rightarrow>
          Inr ((objectAssign ctx (ans_members a))
                 (''repoName'' \<mapsto> JStr s,
                  ''packageName'' \<mapsto> JStr (packageName s),
                  ''varName'' \<mapsto> JStr (varName upper (packageName s))),
               ans_members a)
      | _ \<Rightarrow> Inl TypeError)"

text \<open>\<^verbatim>\<open>for (var key in this.localStore) { if (this.localStore.hasOwnProperty(key)) {
  this.config.set(key, this.context[key]); } }\<close>\<close>

fun configuring_localStore :: "(string \<times> jsval) list \<Rightarrow> jsobj \<Rightarrow> config \<Rightarrow> config" where
  "configuring_localStore [] ctx cfg = cfg"
| "configuring_localStore ((k, v) # kvs) ctx cfg =
     configuring_localStore kvs ctx (config_set k (field ctx k) cfg)"

text \<open>
  The earlier variant has no \<open>localStore\<close>; of its questions only \<open>copyrightYear\<close> touches
  the store from the generator's code: its default is
  \<^verbatim>\<open>generator.config.get('copyrightYear') || (new Date(Date.now())).getFullYear()\<close> and its
  filter is \<^verbatim>\<open>generator.config.set('copyrightYear', year); return year;\<close>.
\<close>

definition old_copyrightYear_default :: "config \<Rightarrow> int \<Rightarrow> jsval" where
  "old_copyrightYear_default cfg year = js_or (config_get cfg ''copyrightYear'') (JNum year)"

definition old_copyrightYear_filter :: "jsval \<Rightarrow> config \<Rightarrow> jsval \<times> config" where
  "old_copyrightYear_filter y cfg = (y, config_set ''copyrightYear'' y cfg)"

subsection \<open>prompting: the Secret Provisioner\<close>

text \<open>\<^verbatim>\<open>str.indexOf(':')\<close>: the index of the first occurrence, or \<open>-1\<close>.\<close>

fun index_from :: "nat \<Rightarrow> nat \<Rightarrow> jsstring \<Rightarrow> int" where
  "index_from i c [] = - 1"
| "index_from i c (x # xs) = (if x = c then int i else index_from (Suc i) c xs)"

definition indexOf :: "jsstring \<Rightarrow> nat \<Rightarrow> int" where
  "indexOf s c = index_from 0 c s"

definition colon :: nat where
  "colon = of_char (CHR '':'')"

text \<open>
  \<^verbatim>\<open>new Buffer(str)\<close>: the bytes of the string in UTF-8. A code unit below \<open>0x80\<close> is one
  byte, one below \<open>0x800\<close> two; a high surrogate followed by a low one is the four bytes
  of their code point, a surrogate without its partner the three bytes of U+FFFD, and
  any other code unit three bytes.
\<close>

definition utf8_unit :: "nat \<Rightarrow> nat list" where
  "utf8_unit u =
     (if u < 0x80 then [u]
      else if u < 0x800 then [0xC0 + u div 64, 0x80 + u mod 64]
      else if is_high u \<or> is_low u then [0xEF, 0xBF, 0xBD]
      else [0xE0 + u div 4096 mod 16, 0x80 + u div 64 mod 64, 0x80 + u mod 64])"

definition utf8_pair :: "nat \<Rightarrow> nat \<Rightarrow> nat list" where
  "utf8_pair h l =
     (let cp = 0x10000 + (h - 0xD800) * 1024 + (l - 0xDC00)
      in [0xF0 + cp div 262144, 0x80 + cp div 4096 mod 64, 0x80 + cp div 64 mod 64,
          0x80 + cp mod 64])"

fun utf8 :: "jsstring \<Rightarrow> nat list" where
  "utf8 (h # l # cs) =
     (if is_high h \<and> is_low l then utf8_pair h l @ utf8 cs
      else utf8_unit h @ utf8 (l # cs))"
| "utf8 [c] = utf8_unit c"
| "utf8 [] = []"

text \<open>\<^verbatim>\<open>.toString('base64')\<close>: three bytes give four digits, a last group of one or two
  bytes is padded with \<open>=\<close>.\<close>

definition b64_digit :: "nat \<Rightarrow> nat" where
  "b64_digit n =
     lit ''ABCDEFGHIJKLMNOPQRSTUVWXYZabcdefghijklmnopqrstuvwxyz0123456789+/'' ! (n mod 64)"

definition pad :: nat where
  "pad = of_char (CHR ''='')"

fun base64 :: "nat list \<Rightarrow> jsstring" where
  "base64 [] = []"
| "base64 [a] = [b64_digit (a div 4), b64_digit (a mod 4 * 16), pad, pad]"
| "base64 [a, b] =
     [b64_digit (a div 4), b64_digit (a mod 4 * 16 + b div 16), b64_digit (b mod 16 * 4), pad]"
| "base64 (a # b # c # r) =
     [b64_digit (a div 4), b64_digit (a mod 4 * 16 + b div 16),
      b64_digit (b mod 16 * 4 + c div 64), b64_digit (c mod 64)] @ base64 r"

text \<open>The \<open>filter\<close> of the \<open>npmApiKey\<close> question.\<close>

definition npmApiKey_filter :: "jsstring \<Rightarrow> jsstring" where
  "npmApiKey_filter str = (if indexOf str colon = - 1 then str else base64 (utf8 str))"

text \<open>
  Base64 decoding, as RFC 4648 defines the alphabet: the value of a digit is its place
  in \<open>A\<close> to \<open>Z\<close>, \<open>a\<close> to \<open>z\<close>, \<open>0\<close> to \<open>9\<close>, \<open>+\<close>, \<open>/\<close>; four digits give three bytes, padding
  marks a last group of one or two bytes.
\<close>

definition b64_value :: "nat \<Rightarrow> nat" where
  "b64_value c =
     (if 65 \<le> c \<and> c \<le> 90 then c - 65
      else if 97 \<le> c \<and> c \<le> 122 then c - 71
      else if 48 \<le> c \<and> c \<le> 57 then c + 4
      else if c = 43 then 62 else 63)"

fun base64_decode :: "jsstring \<Rightarrow> nat list" where
  "base64_decode (a # b # c # d # r) =
     (let x = b64_value a; y = b64_value b; z = b64_value c; w = b64_value d
      in if c = of_char (CHR ''='') then [x * 4 + y div 16]
         else if d = of_char (CHR ''='') then [x * 4 + y div 16, y mod 16 * 16 + z div 4]
         else [x * 4 + y div 16, y mod 16 * 16 + z div 4, z mod 4 * 64 + w] @ base64_decode r)"
| "base64_decode r = []"

record npm_ans =
  genNpmKey :: "bool option"
  npmApiKey :: "jsstring option"

text \<open>
  The two questions of \<open>genNpmKey\<close>. \<open>regen\<close> is what the operator answers to the first
  question if it is asked, \<open>raw\<close> what the second question receives if it is asked. A
  question whose \<open>when\<close> is false leaves no answer.
\<close>

definition genNpmKey_ask :: "config \<Rightarrow> bool \<Rightarrow> jsstring \<Rightarrow> npm_ans" where
  "genNpmKey_ask cfg regen raw =
     (let stored = truthy (config_get cfg ''travisNpmKey'');
          g = (if stored then Some regen else None);
          ask = ((case g of Some b \<Rightarrow> b | None \<Rightarrow> False) \<or> \<not> stored)
      in \<lparr>genNpmKey = g, npmApiKey = (if ask then Some (npmApiKey_filter raw) else None)\<rparr>)"

text \<open>What the provisioner can change: the store, the log, and the calls made to the
  encryption service (project identifier and plaintext).\<close>

record pstate =
  pconfig :: config
  plog :: "error list"
  encrypt_calls :: "(jsstring \<times> jsstring) list"

text \<open>
  The callback of \<open>genNpmKey\<close>. \<open>encrypt\<close> is the external service: it answers with an
  error or with the ciphertext. \<open>repoName\<close> is \<open>context.repoName\<close>, a string since
  \<open>general\<close> set it.
\<close>

definition genNpmKey_done ::
  "(jsstring \<Rightarrow> jsstring \<Rightarrow> error + jsstring) \<Rightarrow> jsstring \<Rightarrow> npm_ans \<Rightarrow> pstate \<Rightarrow> pstate"
  where
  "genNpmKey_done encrypt repoName ans st =
     (case npmApiKey ans of
        None \<Rightarrow> st
      | Some key \<Rightarrow>
          if key = [] then st
          else
            (let project = lit ''OADA/'' @ repoName;
                 st1 = st\<lparr>encrypt_calls := encrypt_calls st @ [(project, key)]\<rparr>
             in case encrypt project key of
                  Inl e \<Rightarrow> st1\<lparr>plog := plog st1 @ [e]\<rparr>
                | Inr blob \<Rightarrow>
                    st1\<lparr>pconfig := config_set ''travisNpmKey'' (JStr blob) (pconfig st1)\<rparr>))"

definition genNpmKey_run ::
  "(jsstring \<Rightarrow> jsstring \<Rightarrow> error + jsstring) \<Rightarrow> jsstring \<Rightarrow> bool \<Rightarrow> jsstring \<Rightarrow> pstate \<Rightarrow> pstate"
  where
  "genNpmKey_run encrypt repoName regen raw st =
     genNpmKey_done encrypt repoName (genNpmKey_ask (pconfig st) regen raw) st"

text \<open>The callback of \<open>general\<close> followed by \<open>configuring.localStore\<close>, as one run performs
  them on the store.\<close>

definition general_then_localStore ::
  "(nat \<Rightarrow> jsstring) \<Rightarrow> general_ans \<Rightarrow> jsobj \<Rightarrow> config \<Rightarrow> error + config" where
  "general_then_localStore upper a ctx cfg =
     (case general_done upper a ctx of
        Inl e \<Rightarrow> Inl e
      | Inr (ctx', localStore) \<Rightarrow> Inr (configuring_localStore localStore ctx' cfg))"

subsection \<open>configuring and writing: the Template Materializer\<close>

text \<open>
  \<open>this.destinationPath(p)\<close> joins \<open>p\<close> to the destination root, unless \<open>p\<close> is absolute,
  and the file store keeps a file under its resolved path: the path is cut at the
  slashes, empty segments and \<open>.\<close> are dropped, and \<open>..\<close> drops the segment before it. A
  resolved path is the list of its segments.
\<close>

type_synonym path = "jsstring list"

fun split_slash :: "jsstring \<Rightarrow> jsstring list" where
  "split_slash [] = [[]]"
| "split_slash (c # cs) =
     (if c = slash then [] # split_slash cs
      else (case split_slash cs of [] \<Rightarrow> [[c]] | seg # segs \<Rightarrow> (c # seg) # segs))"

fun norm_segments :: "path \<Rightarrow> jsstring list \<Rightarrow> path" where
  "norm_segments acc [] = acc"
| "norm_segments acc (seg # segs) =
     (if seg = [] \<or> seg = lit ''.'' then norm_segments acc segs
      else if seg = lit ''..'' then norm_segments (butlast acc) segs
      else norm_segments (acc @ [seg]) segs)"

definition is_absolute :: "jsstring \<Rightarrow> bool" where
  "is_absolute p = (case p of [] \<Rightarrow> False | c # cs \<Rightarrow> c = slash)"

text \<open>
  What lies outside the generator's code is a parameter: the destination root, the
  content of each template file, the template renderer, the merge of the two JSON
  templates of the mocha step, and the conversion of a value to a string in a
  concatenation. The content of a file is a string of bytes.
\<close>

type_synonym files = "path \<Rightarrow> string option"

record engine =
  dest_root :: path
  tpl :: "string \<Rightarrow> string"
  ejs :: "string \<Rightarrow> jsobj \<Rightarrow> string"
  merge_json :: "string \<Rightarrow> string \<Rightarrow> string"
  to_string :: "jsval \<Rightarrow> jsstring"

definition destinationPath :: "engine \<Rightarrow> jsstring \<Rightarrow> path" where
  "destinationPath eng p =
     norm_segments (if is_absolute p then [] else dest_root eng) (split_slash p)"

record mstate =
  mcontext :: jsobj
  mfs :: files

definition fs_write :: "engine \<Rightarrow> jsstring \<Rightarrow> string \<Rightarrow> mstate \<Rightarrow> mstate" where
  "fs_write eng dest content st = st\<lparr>mfs := (mfs st)(destinationPath eng dest \<mapsto> content)\<rparr>"

definition fs_copy :: "engine \<Rightarrow> string \<Rightarrow> jsstring \<Rightarrow> mstate \<Rightarrow> mstate" where
  "fs_copy eng t dest st = fs_write eng dest (tpl eng t) st"

definition fs_copyTpl :: "engine \<Rightarrow> string \<Rightarrow> jsstring \<Rightarrow> mstate \<Rightarrow> mstate" where
  "fs_copyTpl eng t dest st = fs_write eng dest (ejs eng (tpl eng t) (mcontext st)) st"

definition fs_exists :: "engine \<Rightarrow> mstate \<Rightarrow> jsstring \<Rightarrow> bool" where
  "fs_exists eng st dest = (mfs st (destinationPath eng dest) \<noteq> None)"

definition testDir :: jsstring where
  "testDir = lit ''test''"

text \<open>The steps of \<open>configuring\<close> in app/index.js, after \<open>localStore\<close>.\<close>

definition cfg_license :: "engine \<Rightarrow> mstate \<Rightarrow> mstate" where
  "cfg_license eng st =
     fs_copyTpl eng ''_NOTICE'' (lit ''NOTICE'') (fs_copy eng ''_LICENSE'' (lit ''LICENSE'') st)"

definition cfg_editorconfig :: "engine \<Rightarrow> mstate \<Rightarrow> mstate" where
  "cfg_editorconfig eng st = fs_copy eng ''editorconfig'' (lit ''.editorconfig'') st"

definition cfg_ack :: "engine \<Rightarrow> mstate \<Rightarrow> mstate" where
  "cfg_ack eng st = fs_copy eng ''ackrc'' (lit ''.ackrc'') st"

definition cfg_jshint :: "engine \<Rightarrow> mstate \<Rightarrow> mstate" where
  "cfg_jshint eng st =
     fs_copy eng ''jshintignore'' (lit ''.jshintignore'')
       (fs_copy eng ''jshintrc'' (lit ''.jshintrc'') st)"

definition cfg_jscs :: "engine \<Rightarrow> mstate \<Rightarrow> mstate" where
  "cfg_jscs eng st = fs_copy eng ''jscsrc'' (lit ''.jscsrc'') st"

definition cfg_gulp :: "engine \<Rightarrow> mstate \<Rightarrow> mstate" where
  "cfg_gulp eng st =
     (if \<not> truthy (field (mcontext st) ''gulpfile'') then st
      else fs_copyTpl eng ''_gulpfile.js'' (lit ''gulpfile.js'') st)"

definition cfg_karma :: "engine \<Rightarrow> mstate \<Rightarrow> mstate" where
  "cfg_karma eng st =
     (if \<not> truthy (field (mcontext st) ''browser'') then st
      else fs_copyTpl eng ''_karma.conf.js'' (lit ''karma.conf.js'') st)"

definition cfg_mocha :: "engine \<Rightarrow> mstate \<Rightarrow> mstate" where
  "cfg_mocha eng st =
     fs_write eng (testDir @ lit ''/.jshintrc'')
       (merge_json eng (tpl eng ''jshintrc'') (tpl eng ''test/jshintrc-mocha''))
       (fs_copy eng ''test/mocha.opts'' (testDir @ lit ''/mocha.opts'') st)"

definition cfg_istanbul :: "engine \<Rightarrow> mstate \<Rightarrow> mstate" where
  "cfg_istanbul eng st = fs_copy eng ''istanbul.yml'' (lit ''.istanbul.yml'') st"

definition cfg_npm :: "engine \<Rightarrow> mstate \<Rightarrow> mstate" where
  "cfg_npm eng st = fs_copyTpl eng ''_package.json'' (lit ''package.json'') st"

definition cfg_git :: "engine \<Rightarrow> mstate \<Rightarrow> mstate" where
  "cfg_git eng st = fs_copy eng ''gitignore'' (lit ''.gitignore'') st"

text \<open>\<^verbatim>\<open>this.context.travisNpmKey = this.config.get('travisNpmKey')\<close>, then the template.\<close>

definition cfg_travis :: "engine \<Rightarrow> config \<Rightarrow> mstate \<Rightarrow> mstate" where
  "cfg_travis eng cfg st =
     fs_copyTpl eng ''travis.yml'' (lit ''.travis.yml'')
       (st\<lparr>mcontext := (mcontext st)(''travisNpmKey'' \<mapsto> config_get cfg ''travisNpmKey'')\<rparr>)"

definition app_configuring :: "engine \<Rightarrow> config \<Rightarrow> mstate \<Rightarrow> mstate" where
  "app_configuring eng cfg st =
     cfg_travis eng cfg (cfg_git eng (cfg_npm eng (cfg_istanbul eng (cfg_mocha eng
       (cfg_karma eng (cfg_gulp eng (cfg_jscs eng (cfg_jshint eng (cfg_ack eng
         (cfg_editorconfig eng (cfg_license eng st)))))))))))"

text \<open>The steps of \<open>writing\<close> in app/index.js: each returns early when its destination
  exists.\<close>

definition wr_readme :: "engine \<Rightarrow> mstate \<Rightarrow> mstate" where
  "wr_readme eng st =
     (if fs_exists eng st (lit ''README.md'') then st
      else fs_copyTpl eng ''_README.md'' (lit ''README.md'') st)"

definition wr_authors :: "engine \<Rightarrow> mstate \<Rightarrow> mstate" where
  "wr_authors eng st =
     (if fs_exists eng st (lit ''AUTHORS'') then st
      else fs_copyTpl eng ''_AUTHORS'' (lit ''AUTHORS'') st)"

text \<open>\<open>destinationPath(this.context.main)\<close> throws on a value that is no string.\<close>

definition wr_main :: "engine \<Rightarrow> mstate \<Rightarrow> error + mstate" where
  "wr_main eng st =
     (case field (mcontext st) ''main'' of
        JStr dest \<Rightarrow>
          Inr (if fs_exists eng st dest then st else fs_copyTpl eng ''index.js'' dest st)
      | _ \<Rightarrow> Inl TypeError)"

definition test_file :: "engine \<Rightarrow> mstate \<Rightarrow> jsstring" where
  "test_file eng st =
     testDir @ lit ''/'' @ to_string eng (field (mcontext st) ''packageName'') @ lit ''.test.js''"

definition wr_test :: "engine \<Rightarrow> mstate \<Rightarrow> mstate" where
  "wr_test eng st =
     (if fs_exists eng st (test_file eng st) then st
      else fs_copyTpl eng ''test/setup.js'' (lit ''test/setup.js'')
             (fs_copyTpl eng ''test/test.js'' (test_file eng st) st))"

definition app_writing :: "engine \<Rightarrow> mstate \<Rightarrow> error + mstate" where
  "app_writing eng st =
     bindE (wr_main eng (wr_authors eng (wr_readme eng st))) (\<lambda>s. Inr (wr_test eng s))"

definition app_materialize :: "engine \<Rightarrow> config \<Rightarrow> mstate \<Rightarrow> error + mstate" where
  "app_materialize eng cfg st = app_writing eng (app_configuring eng cfg st)"

text \<open>
  The earlier variant: \<open>configuring\<close> has \<open>license\<close> (with AUTHORS), \<open>readme\<close>,
  \<open>editorconfig\<close>, \<open>jshint\<close>, \<open>jscs\<close>, \<open>mocha\<close>, \<open>npm\<close>, \<open>git\<close> and \<open>travis\<close>; \<open>writing\<close> has \<open>main\<close>
  and \<open>test\<close>. No step looks whether its destination exists.
\<close>

definition old_license :: "engine \<Rightarrow> mstate \<Rightarrow> mstate" where
  "old_license eng st =
     fs_copyTpl eng ''_NOTICE'' (lit ''NOTICE'')
       (fs_copyTpl eng ''_AUTHORS'' (lit ''AUTHORS'')
         (fs_copy eng ''_LICENSE'' (lit ''LICENSE'') st))"

definition old_readme :: "engine \<Rightarrow> mstate \<Rightarrow> mstate" where
  "old_readme eng st = fs_copyTpl eng ''_README.md'' (lit ''README.md'') st"

definition old_configuring :: "engine \<Rightarrow> config \<Rightarrow> mstate \<Rightarrow> mstate" where
  "old_configuring eng cfg st =
     cfg_travis eng cfg (cfg_git eng (cfg_npm eng (cfg_mocha eng (cfg_jscs eng
       (cfg_jshint eng (cfg_editorconfig eng (old_readme eng (old_license eng st))))))))"

definition old_main :: "engine \<Rightarrow> mstate \<Rightarrow> error + mstate" where
  "old_main eng st =
     (case field (mcontext st) ''main'' of
        JStr dest \<Rightarrow> Inr (fs_copyTpl eng ''index.js'' dest st)
      | _ \<Rightarrow> Inl TypeError)"

definition old_test :: "engine \<Rightarrow> mstate \<Rightarrow> mstate" where
  "old_test eng st = fs_copyTpl eng ''test/test.js'' (test_file eng st) st"

definition old_materialize :: "engine \<Rightarrow> config \<Rightarrow> mstate \<Rightarrow> error + mstate" where
  "old_materialize eng cfg st =
     bindE (old_main eng (old_configuring eng cfg st)) (\<lambda>s. Inr (old_test eng s))"

text \<open>The content of a destination file after a run of the materializer; nothing when the
  run threw or the file is not there.\<close>

definition file_after :: "engine \<Rightarrow> error + mstate \<Rightarrow> jsstring \<Rightarrow> string option" where
  "file_after eng r dest =
     (case r of Inl e \<Rightarrow> None | Inr st \<Rightarrow> mfs st (destinationPath eng dest))"

subsection \<open>install: the Dependency Installer\<close>

datatype dep_kind = Save | SaveDev

type_synonym invocation = "string list \<times> dep_kind"

text \<open>The steps of \<open>install\<close> in app/index.js, each the list of its \<open>npmInstall\<close> calls.\<close>

definition inst_promises :: "jsobj \<Rightarrow> invocation list" where
  "inst_promises ctx =
     (if \<not> truthy (field ctx ''promises'') then [] else [([''bluebird''], Save)])"

definition inst_istanbul :: "invocation list" where
  "inst_istanbul = [([''istanbul''], SaveDev)]"

definition inst_mocha :: "invocation list" where
  "inst_mocha = [([''mocha''], SaveDev)]"

definition inst_chai :: "jsobj \<Rightarrow> invocation list" where
  "inst_chai ctx =
     ([''chai''], SaveDev) #
       (if truthy (field ctx ''promises'') then [([''chai-as-promised''], SaveDev)] else [])"

definition inst_jshint :: "invocation list" where
  "inst_jshint = [([''jshint'', ''jshint-stylish''], SaveDev)]"

definition inst_jscs :: "invocation list" where
  "inst_jscs = [([''jscs''], SaveDev)]"

text \<open>\<open>mkdirp\<close> of the hooks directory reports an error or not; the error is logged and the
  installation goes on.\<close>

definition inst_precommit :: "error option \<Rightarrow> invocation list \<times> error list" where
  "inst_precommit mkdirp_err =
     ([([''pre-commit''], SaveDev)], (case mkdirp_err of None \<Rightarrow> [] | Some e \<Rightarrow> [e]))"

definition inst_gulp :: "jsobj \<Rightarrow> invocation list" where
  "inst_gulp ctx =
     (if \<not> truthy (field ctx ''gulpfile'') then []
      else [([''gulp'', ''gulp-jshint'', ''gulp-jscs''], SaveDev)])"

definition inst_karma :: "jsobj \<Rightarrow> invocation list" where
  "inst_karma ctx =
     (if \<not> truthy (field ctx ''browser'') then []
      else [([''karma'', ''yargs'', ''karma-browserify'', ''browserify-istanbul'', ''brfs'',
              ''karma-coverage@0.2.6'', ''karma-mocha'', ''karma-mocha-reporter'',
              ''karma-phantomjs-launcher'', ''karma-phantomjs-shim''], SaveDev)])"

definition app_install :: "jsobj \<Rightarrow> error option \<Rightarrow> invocation list" where
  "app_install ctx mkdirp_err =
     inst_promises ctx @ inst_istanbul @ inst_mocha @ inst_chai ctx @ inst_jshint @ inst_jscs
       @ fst (inst_precommit mkdirp_err) @ inst_gulp ctx @ inst_karma ctx"

text \<open>The packages an invocation list names.\<close>

definition installed :: "invocation list \<Rightarrow> string list" where
  "installed invs = concat (map fst invs)"

subsection \<open>Example runs\<close>

definition cfg_old :: config where
  "cfg_old = \<lparr>store = [''libDesc'' \<mapsto> JStr (lit ''old'')], writes = []\<rparr>"

definition ans_new :: general_ans where
  "ans_new = \<lparr>ans_libName = JStr (lit ''node-foo''), ans_libDesc = JStr (lit ''new''),
     ans_copyrightYear = JStr (lit ''2015''), ans_gulpfile = JBool False,
     ans_browser = JBool True, ans_promises = JBool True\<rparr>"

definition ann :: author_ans where
  "ann = \<lparr>authorName = Some (lit ''Ann''), authorEmail = Some (lit ''ann@example.org''),
     authorUrl = Some []\<rparr>"

definition ann_url :: author_ans where
  "ann_url = \<lparr>authorName = Some (lit ''Ann''), authorEmail = Some (lit ''ann@example.org''),
     authorUrl = Some (lit ''http://ann.example.org'')\<rparr>"

text \<open>An engine that marks what it does: a template's content is its name, rendering
  adds a mark.\<close>

definition eng_example :: engine where
  "eng_example =
     \<lparr>dest_root = [lit ''home'', lit ''me'', lit ''node-foo''],
      tpl = (\<lambda>t. t), ejs = (\<lambda>s c. ''rendered '' @ s), merge_json = (\<lambda>a b. a @ b),
      to_string = (\<lambda>v. case v of JStr s \<Rightarrow> s | _ \<Rightarrow> lit ''undefined'')\<rparr>"

definition ctx_example :: jsobj where
  "ctx_example = [''main'' \<mapsto> JStr (lit ''index.js''), ''packageName'' \<mapsto> JStr (lit ''foo''),
     ''promises'' \<mapsto> JBool True]"

text \<open>A destination that holds a \<open>README.md\<close> and a \<open>LICENSE\<close> of the operator's; and the
  same with a manifest whose \<open>main\<close> is \<open>./README.md\<close>.\<close>

definition dest_example :: mstate where
  "dest_example =
     \<lparr>mcontext = ctx_example,
      mfs = [destinationPath eng_example (lit ''README.md'') \<mapsto> ''my notes'',
             destinationPath eng_example (lit ''LICENSE'') \<mapsto> ''my license'']\<rparr>"

definition dest_main_readme :: mstate where
  "dest_main_readme =
     dest_example\<lparr>mcontext := ctx_example(''main'' \<mapsto> JStr (lit ''./README.md''))\<rparr>"

definition st_stored :: pstate where
  "st_stored =
     \<lparr>pconfig = \<lparr>store = [''travisNpmKey'' \<mapsto> JStr (lit ''old cipher'')], writes = []\<rparr>,
      plog = [], encrypt_calls = []\<rparr>"

definition st_fresh :: pstate where
  "st_fresh = \<lparr>pconfig = \<lparr>store = Map.empty, writes = []\<rparr>, plog = [], encrypt_calls = []\<rparr>"

definition encrypt_fails :: "jsstring \<Rightarrow> jsstring \<Rightarrow> error + jsstring" where
  "encrypt_fails project key = Inl (Reported ''no public key'')"

definition encrypt_ok :: "jsstring \<Rightarrow> jsstring \<Rightarrow> error + jsstring" where
  "encrypt_ok project key = Inr (lit ''cipher of '' @ key)"

section \<open>Properties\<close>

subsection \<open>Derived names\<close>

lemma lit_simps:
  "lit [] = []" "lit (c # cs) = of_char c # lit cs" "length (lit s) = length s"
  by (simp_all add: lit_def)

lemma replace_js_suffix_none: "\<not> suffix (lit ''js'') s \<Longrightarrow> replace_js_suffix s = s"
  by (induction s) (auto simp: js_suffix_match_def suffix_Cons lit_def)

lemma replace_js_suffix_append:
  "suf = lit ''.js'' \<or> suf = lit ''-js'' \<Longrightarrow> replace_js_suffix (x @ suf) = x"
  by (induction x)
     (auto simp: js_suffix_match_def lit_def Cons_eq_append_conv append_eq_Cons_conv)

lemma replace_node_prefix_append: "replace_node_prefix (lit ''node-'' @ x) = x"
  by (simp add: replace_node_prefix_def lit_def)

lemma replace_node_prefix_none: "\<not> prefix (lit ''node-'') s \<Longrightarrow> replace_node_prefix s = s"
  unfolding replace_node_prefix_def prefix_def
  by (metis append_take_drop_id)

lemma seps_followed_tl: "seps_followed (d # cs) \<Longrightarrow> seps_followed cs"
  by (cases cs) auto

lemma replace_sep_global_camel:
  "seps_followed s \<Longrightarrow> replace_sep_global upper s = camel_from upper False s"
proof (induction upper s rule: replace_sep_global.induct)
  case (1 upper c d cs)
  have tl: "seps_followed cs" using "1.prems" by (auto dest: seps_followed_tl)
  show ?case
  proof (cases "is_sep c")
    case True
    with "1.prems" have d: "\<not> is_sep d" "\<not> line_terminator d" by auto
    with True "1.IH"(1) tl show ?thesis by simp
  next
    case False
    with "1.prems" "1.IH"(2) show ?thesis by simp
  qed
qed simp_all

lemma replace_sep_global_snoc:
  "seps_followed s \<Longrightarrow> replace_sep_global upper (s @ [c]) = replace_sep_global upper s @ [c]"
proof (induction upper s rule: replace_sep_global.induct)
  case (1 upper c0 d cs)
  have tl: "seps_followed cs" using "1.prems" by (auto dest: seps_followed_tl)
  show ?case
  proof (cases "is_sep c0")
    case True
    with "1.prems" have d: "\<not> is_sep d" "\<not> line_terminator d" by auto
    with True "1.IH"(1) tl show ?thesis by simp
  next
    case False
    with "1.prems" "1.IH"(2) show ?thesis by simp
  qed
qed simp_all

text \<open>
  Counterexample for C1 as stated: for the library name \<open>node-xjs\<close>, of the form
  \<open>node-<x>\<close> with \<open>x = xjs\<close>, the derived package name is \<open>x\<close>, not \<open>xjs\<close>: the
  second pattern makes the separator before \<open>js\<close> optional and strips a bare \<open>js\<close> too.
\<close>

theorem packageName_node_xjs_counterexample:
  "packageName (lit ''node-'' @ lit ''xjs'') = lit ''x'' \<and>
   packageName (lit ''node-'' @ lit ''xjs'') \<noteq> lit ''xjs''"
  by (simp add: packageName_def replace_node_prefix_def js_suffix_match_def lit_def)

text \<open>
  C1 (amended): for every \<open>x\<close>, the package name derived from \<open>node-<x>.js\<close> and from
  \<open>node-<x>-js\<close> is \<open>x\<close>: the leading \<open>node-\<close> and the trailing \<open>.js\<close> or \<open>-js\<close> are both
  stripped, each once. From \<open>node-<x>\<close> it is \<open>x\<close> for every \<open>x\<close> that does not end in
  \<open>js\<close>. From \<open><x>.js\<close> and \<open><x>-js\<close> it is \<open>x\<close> whenever the name has no leading \<open>node-\<close>
  to strip (a name that has one is of the form \<open>node-<x'>.js\<close>).
\<close>

theorem packageName_strips:
  "packageName (lit ''node-'' @ x @ lit ''.js'') = x \<and>
   packageName (lit ''node-'' @ x @ lit ''-js'') = x \<and>
   (\<not> suffix (lit ''js'') x \<longrightarrow> packageName (lit ''node-'' @ x) = x) \<and>
   (\<not> prefix (lit ''node-'') (x @ lit ''.js'') \<longrightarrow> packageName (x @ lit ''.js'') = x) \<and>
   (\<not> prefix (lit ''node-'') (x @ lit ''-js'') \<longrightarrow> packageName (x @ lit ''-js'') = x)"
proof (intro conjI impI)
  show "packageName (lit ''node-'' @ x @ lit ''.js'') = x"
    unfolding packageName_def replace_node_prefix_append
    by (rule replace_js_suffix_append) simp
next
  show "packageName (lit ''node-'' @ x @ lit ''-js'') = x"
    unfolding packageName_def replace_node_prefix_append
    by (rule replace_js_suffix_append) simp
next
  assume h: "\<not> suffix (lit ''js'') x"
  show "packageName (lit ''node-'' @ x) = x"
    unfolding packageName_def replace_node_prefix_append
    by (rule replace_js_suffix_none [OF h])
next
  assume h: "\<not> prefix (lit ''node-'') (x @ lit ''.js'')"
  show "packageName (x @ lit ''.js'') = x"
    unfolding packageName_def replace_node_prefix_none [OF h]
    by (rule replace_js_suffix_append) simp
next
  assume h: "\<not> prefix (lit ''node-'') (x @ lit ''-js'')"
  show "packageName (x @ lit ''-js'') = x"
    unfolding packageName_def replace_node_prefix_none [OF h]
    by (rule replace_js_suffix_append) simp
qed

text \<open>C1 (amended) at \<open>node-foo.js\<close>, \<open>node-foo-js\<close>, \<open>node-foo\<close>, \<open>foo.js\<close> and \<open>foo-js\<close>.\<close>

theorem packageName_strips_witness:
  "packageName (lit ''node-foo.js'') = lit ''foo'' \<and>
   packageName (lit ''node-foo-js'') = lit ''foo'' \<and>
   \<not> suffix (lit ''js'') (lit ''foo'') \<and> packageName (lit ''node-foo'') = lit ''foo'' \<and>
   \<not> prefix (lit ''node-'') (lit ''foo.js'') \<and> packageName (lit ''foo.js'') = lit ''foo'' \<and>
   \<not> prefix (lit ''node-'') (lit ''foo-js'') \<and> packageName (lit ''foo-js'') = lit ''foo''"
proof -
  have a: "lit ''node-foo.js'' = lit ''node-'' @ lit ''foo'' @ lit ''.js''"
    "lit ''node-foo-js'' = lit ''node-'' @ lit ''foo'' @ lit ''-js''"
    "lit ''node-foo'' = lit ''node-'' @ lit ''foo''"
    "lit ''foo.js'' = lit ''foo'' @ lit ''.js''"
    "lit ''foo-js'' = lit ''foo'' @ lit ''-js''"
    by (simp_all add: lit_def)
  have b: "\<not> suffix (lit ''js'') (lit ''foo'')"
    "\<not> prefix (lit ''node-'') (lit ''foo'' @ lit ''.js'')"
    "\<not> prefix (lit ''node-'') (lit ''foo'' @ lit ''-js'')"
    by (simp_all add: lit_def suffix_Cons)
  from packageName_strips [of "lit ''foo''"] b show ?thesis unfolding a by simp
qed

text \<open>
  Counterexample for C2 as stated: a separator that is the last character of the package
  name is not removed; \<open>foo-\<close> stays \<open>foo-\<close>, where removing every separator would
  give \<open>foo\<close>. Nor is the second of two adjacent separators (\<open>a--b\<close> becomes \<open>a-b\<close>), nor
  a separator before a line feed.
\<close>

theorem varName_trailing_sep_counterexample:
  "varName upper_example (lit ''foo-'') = lit ''foo-'' \<and>
   camelCase_spec upper_example (lit ''foo-'') = lit ''foo'' \<and>
   varName upper_example (lit ''a--b'') = lit ''a-b'' \<and>
   camelCase_spec upper_example (lit ''a--b'') = lit ''aB'' \<and>
   varName upper_example (lit ''a-'' @ [0x0A] @ lit ''b'') = lit ''a-'' @ [0x0A] @ lit ''b'' \<and>
   camelCase_spec upper_example (lit ''a-'' @ [0x0A] @ lit ''b'') = lit ''a'' @ [0x0A] @ lit ''b''"
  by (simp add: varName_def camelCase_spec_def is_sep_def line_terminator_def
      upper_example_def lit_def)

text \<open>
  C2 (amended): for every package name in which each separator \<open>-\<close>, \<open>_\<close> or \<open>.\<close> is
  directly followed by a character that is neither a separator nor a line terminator, the
  variable name is the package name with every separator removed and the character after
  it upper-cased by the language's \<open>toUpperCase\<close>; a separator appended as the last
  character of such a name is kept in place.
\<close>

theorem varName_camelCase:
  assumes "seps_followed s"
  shows "varName upper s = camelCase_spec upper s \<and>
         (is_sep c \<longrightarrow> varName upper (s @ [c]) = varName upper s @ [c])"
  using assms
  by (simp add: varName_def camelCase_spec_def replace_sep_global_camel
      replace_sep_global_snoc)

text \<open>C2 (amended) at \<open>foo-bar.baz\<close>, which becomes \<open>fooBarBaz\<close>, at \<open>foo-bar.baz_\<close>, and
  at \<open>caf-\<close> followed by U+00E9, which becomes \<open>caf\<close> followed by U+00C9.\<close>

theorem varName_camelCase_witness:
  "seps_followed (lit ''foo-bar.baz'') \<and>
   varName upper_example (lit ''foo-bar.baz'') = lit ''fooBarBaz'' \<and>
   camelCase_spec upper_example (lit ''foo-bar.baz'') = lit ''fooBarBaz'' \<and>
   is_sep (of_char (CHR ''_'')) \<and>
   varName upper_example (lit ''foo-bar.baz'' @ [of_char (CHR ''_'')]) = lit ''fooBarBaz_'' \<and>
   seps_followed (lit ''caf-'' @ [0xE9]) \<and>
   varName upper_example (lit ''caf-'' @ [0xE9]) = lit ''caf'' @ [0xC9]"
proof -
  have a: "seps_followed (lit ''foo-bar.baz'')" "seps_followed (lit ''caf-'' @ [0xE9])"
    by (simp_all add: is_sep_def line_terminator_def lit_def)
  have c: "camelCase_spec upper_example (lit ''foo-bar.baz'') = lit ''fooBarBaz''"
    "camelCase_spec upper_example (lit ''caf-'' @ [0xE9]) = lit ''caf'' @ [0xC9]"
    by (simp_all add: camelCase_spec_def is_sep_def upper_example_def lit_def)
  have d: "is_sep (of_char (CHR ''_''))" by (simp add: is_sep_def lit_def)
  have e: "lit ''fooBarBaz'' @ [of_char (CHR ''_'')] = lit ''fooBarBaz_''" by (simp add: lit_def)
  from varName_camelCase [OF a(1), of upper_example "of_char (CHR ''_'')"]
    varName_camelCase [OF a(2), of upper_example "of_char (CHR ''_'')"] a c d e
  show ?thesis by simp
qed

subsection \<open>The Context Resolver\<close>

lemma get_prop_defined: "u \<noteq> JUndefined \<Longrightarrow> u \<noteq> JNull \<Longrightarrow> \<exists>v. get_prop u k = Inr v"
  by (cases u) auto

lemma gitConfig_completes:
  assumes "git_has_user g"
  shows "\<exists>st'. gitConfig g st = Inr st' \<and>
           log st' = (case g of GitErr e \<Rightarrow> log st @ [e] | GitConf c \<Rightarrow> log st)"
proof (cases g)
  case (GitErr e)
  then show ?thesis by (simp add: gitConfig_def)
next
  case (GitConf c)
  with assms obtain u where u: "get_prop c ''user'' = Inr u" "u \<noteq> JUndefined" "u \<noteq> JNull"
    by (auto simp: git_has_user_def split: sum.splits)
  from get_prop_defined[OF u(2,3)] obtain n where n: "get_prop u ''name'' = Inr n" by blast
  from get_prop_defined[OF u(2,3)] obtain em where em: "get_prop u ''email'' = Inr em" by blast
  show ?thesis using GitConf u(1) n em by (simp add: gitConfig_def bindE_def)
qed

lemma initializing_completes:
  assumes "dir_match (destPath env) = Some g" and "git_has_user (git env)"
  shows "\<exists>st. initializing env = Inr st"
proof -
  obtain s1 where s1: "init_dir (destPath env) init_default = Inr s1"
    using assms(1) by (simp add: init_dir_def)
  obtain s2 where s2: "gitConfig (git env) s1 = Inr s2"
    using gitConfig_completes[OF assms(2)] by blast
  show ?thesis by (simp add: initializing_def bindE_def s1 s2)
qed




lemma assign_or_truthy: "truthy v \<Longrightarrow> assign_or k v c = c(k \<mapsto> v)"
  by (simp add: assign_or_def js_or_def)



lemma dir_match_nonempty: "dir_match p = Some g \<Longrightarrow> g \<noteq> []"
  by (induction p) (auto simp: dir_match_here_def Let_def split: if_splits option.splits)

lemma initializing_all_sources_fail:
  assumes "dir_match (destPath env) = Some g" and "git env = GitErr e1"
    and "npm env = NpmErr e2" and "manifest_file env = Malformed"
  shows "initializing env =
           Inr \<lparr>conf = [''main'' \<mapsto> JStr (lit ''index.js''), ''version'' \<mapsto> JStr (lit ''0.0.0''),
                        ''libName'' \<mapsto> JStr g],
                log = [e1, e2, SyntaxError]\<rparr>"
  using assms dir_match_nonempty [OF assms(1)]
  by (simp add: initializing_def init_dir_def init_default_def gitConfig_def npmConfig_def
      packageJson_def readJSON_def bindE_def assign_or_truthy)

text \<open>A manifest that parses, with a repository URL that does not end in \<open>.git\<close>: the
  failed match throws inside the \<open>try\<close> block, and the version the manifest declares is
  never read.\<close>

lemma packageJson_repository_without_git:
  "packageJson
     (Parsed (JObj [(''version'', JStr (lit ''1.2.3'')),
        (''repository'', JObj [(''url'', JStr (lit ''https://github.com/OADA/foo''))])]))
     init_default =
   init_default\<lparr>conf := (conf init_default)(''name'' \<mapsto> JUndefined), log := [TypeError]\<rparr>"
  by (simp add: packageJson_def readJSON_def packageJson_body_def stmt_name_def
      stmt_author_def stmt_libName_def repo_name_def repo_match_here_def bindE_def
      assign_or_def js_or_def field_def init_default_def lit_def slash_def)

text \<open>
  C4, at a failing input: the version-control configuration loads without error but has no
  \<open>user\<close> section. The read of \<open>conf.user.name\<close> throws a \<open>TypeError\<close> that nothing
  catches, so the error escapes the resolver, where the claim has every source failure
  logged and resolution completing.
\<close>

theorem initializing_git_without_user:
  "initializing \<lparr>destPath = lit ''/home/me/lib'',
      git = GitConf (JObj [(''core'', JObj [(''editor'', JStr (lit ''vi''))])]),
      npm = NpmConf Map.empty, manifest_file = Absent\<rparr> = Inl TypeError"
  by (simp add: initializing_def init_dir_def dir_match_here_def not_slash_def gitConfig_def
      bindE_def lit_def slash_def)

text \<open>
  Counterexample for C8 as stated: the manifest's author is an object with a name, an
  empty email and an empty url, while the version-control identity has an email and the
  package-manager identity a url. The Context takes the manifest's name, but keeps the
  email of the version-control identity and the url of the package-manager identity:
  \<^verbatim>\<open>json.author.email || this.conf.email\<close> passes an empty value over.
\<close>

theorem manifest_empty_members_counterexample:
  "resolved_field (initializing env_empty_members) ''name'' = JStr (lit ''Ann'') \<and>
   resolved_field (initializing env_empty_members) ''email'' = JStr (lit ''git@example.org'') \<and>
   resolved_field (initializing env_empty_members) ''email'' \<noteq> JStr [] \<and>
   resolved_field (initializing env_empty_members) ''url'' = JStr (lit ''http://npm.example.org'') \<and>
   resolved_field (initializing env_empty_members) ''url'' \<noteq> JStr []"
  by (simp add: resolved_field_def env_empty_members_def env_example_def initializing_def
      init_dir_def init_default_def dir_match_here_def not_slash_def slash_def gitConfig_def
      npmConfig_def packageJson_def readJSON_def packageJson_body_def stmt_name_def
      stmt_author_def stmt_libName_def stmt_copy_def bindE_def assign_or_def js_or_def
      field_def init_context_def lit_def)



subsection \<open>Prompting and Stored Preferences\<close>

lemma hex_digit_mem: "hex_digit n \<in> set (lit ''0123456789abcdef'')"
  unfolding hex_digit_def by (rule nth_mem) (simp add: lit_def)

lemma hex_digit_not_newline: "hex_digit n \<noteq> 10"
  using hex_digit_mem [of n] by (auto simp: lit_def)

lemma quote_unit_no_newline: "10 \<notin> set (quote_unit c)"
  by (auto simp: quote_unit_def lit_def hex_digit_not_newline)

lemma quote_units_no_newline: "10 \<notin> set (quote_units s)"
  by (induction s rule: quote_units.induct)
     (auto simp: quote_unit_no_newline is_high_def is_low_def)

lemma quote_no_newline: "10 \<notin> set (quote s)"
  by (simp add: quote_def quote_units_no_newline)

lemma indent_newlines_append:
  "indent_newlines (a @ b) = indent_newlines a @ indent_newlines b"
  by (simp add: indent_newlines_def)

lemma indent_newlines_id: "10 \<notin> set s \<Longrightarrow> indent_newlines s = s"
  by (induction s) (auto simp: indent_newlines_def)

lemma indent_newlines_quote: "indent_newlines (quote s) = quote s"
  by (rule indent_newlines_id [OF quote_no_newline])

lemma quote_units_plain: "plain s \<Longrightarrow> quote_units s = s"
  by (induction s rule: quote_units.induct) (auto simp: plain_def quote_unit_def)

lemma quote_plain: "plain s \<Longrightarrow> quote s = [0x22] @ s @ [0x22]"
  by (simp add: quote_def quote_units_plain)

lemma quote_name: "quote (lit ''name'') = [0x22] @ lit ''name'' @ [0x22]"
  "quote (lit ''email'') = [0x22] @ lit ''email'' @ [0x22]"
  "quote (lit ''url'') = [0x22] @ lit ''url'' @ [0x22]"
  by (rule quote_plain, simp add: plain_def lit_def is_high_def is_low_def)+

text \<open>
  C10: the serialized author record is exactly the indented object text of the members
  that are there, in the order \<open>name\<close>, \<open>email\<close>, \<open>url\<close>, each on its own line as
  \<open>"key": "value"\<close>. When the author-URL answer is absent or the empty string the text has
  no \<open>url\<close> line at all; when it is a non-empty string the \<open>url\<close> line is there with that
  string, quoted, as its value. The quoting puts a string without control characters,
  quotation marks, backslashes and surrogates between quotation marks as it is.
\<close>

theorem authorJSON_url_member:
  "authorJSON ans =
     (let line = (\<lambda>k v. lit ''    '' @ [0x22] @ lit k @ [0x22] @ lit '': '' @ quote v);
          sep = lit '','' @ [0x0A];
          obj = (\<lambda>lines. lit ''{'' @ [0x0A] @ lines @ [0x0A] @ lit ''  }'');
          url = (case authorUrl ans of None \<Rightarrow> [] | Some u \<Rightarrow> if u = [] then [] else line ''url'' u)
      in case (authorName ans, authorEmail ans) of
           (Some n, Some e) \<Rightarrow>
             obj (line ''name'' n @ sep @ line ''email'' e @ (if url = [] then [] else sep @ url))
         | (Some n, None) \<Rightarrow> obj (line ''name'' n @ (if url = [] then [] else sep @ url))
         | (None, Some e) \<Rightarrow> obj (line ''email'' e @ (if url = [] then [] else sep @ url))
         | (None, None) \<Rightarrow> (if url = [] then lit ''{}'' else obj url)) \<and>
   (plain s \<longrightarrow> quote s = [0x22] @ s @ [0x22])"
proof
  have i: "indent_newlines [] = []"
    "\<And>c cs. indent_newlines (c # cs) =
       (if c = 10 then 10 # lit ''  '' else [c]) @ indent_newlines cs"
    by (simp_all add: indent_newlines_def)
  show "authorJSON ans =
     (let line = (\<lambda>k v. lit ''    '' @ [0x22] @ lit k @ [0x22] @ lit '': '' @ quote v);
          sep = lit '','' @ [0x0A];
          obj = (\<lambda>lines. lit ''{'' @ [0x0A] @ lines @ [0x0A] @ lit ''  }'');
          url = (case authorUrl ans of None \<Rightarrow> [] | Some u \<Rightarrow> if u = [] then [] else line ''url'' u)
      in case (authorName ans, authorEmail ans) of
           (Some n, Some e) \<Rightarrow>
             obj (line ''name'' n @ sep @ line ''email'' e @ (if url = [] then [] else sep @ url))
         | (Some n, None) \<Rightarrow> obj (line ''name'' n @ (if url = [] then [] else sep @ url))
         | (None, Some e) \<Rightarrow> obj (line ''email'' e @ (if url = [] then [] else sep @ url))
         | (None, None) \<Rightarrow> (if url = [] then lit ''{}'' else obj url))"
    by (cases "authorName ans"; cases "authorEmail ans"; cases "authorUrl ans")
       (simp_all add: authorJSON_def author_record_def or_undefined_def stringify_indent2_def
         member_line_def indent_newlines_append indent_newlines_quote i Let_def
         quote_name [unfolded lit_def, simplified] lit_def)
  show "plain s \<longrightarrow> quote s = [0x22] @ s @ [0x22]" by (simp add: quote_plain)
qed

text \<open>C10 for an author without and with a URL: the two texts, code unit by code unit.\<close>

theorem authorJSON_url_member_witness:
  "authorJSON ann =
     lit ''{'' @ [0x0A] @
     lit ''    '' @ [0x22] @ lit ''name'' @ [0x22] @ lit '': '' @ [0x22] @ lit ''Ann'' @ [0x22] @
     lit '','' @ [0x0A] @
     lit ''    '' @ [0x22] @ lit ''email'' @ [0x22] @ lit '': '' @
       [0x22] @ lit ''ann@example.org'' @ [0x22] @
     [0x0A] @ lit ''  }'' \<and>
   authorJSON ann_url =
     lit ''{'' @ [0x0A] @
     lit ''    '' @ [0x22] @ lit ''name'' @ [0x22] @ lit '': '' @ [0x22] @ lit ''Ann'' @ [0x22] @
     lit '','' @ [0x0A] @
     lit ''    '' @ [0x22] @ lit ''email'' @ [0x22] @ lit '': '' @
       [0x22] @ lit ''ann@example.org'' @ [0x22] @
     lit '','' @ [0x0A] @
     lit ''    '' @ [0x22] @ lit ''url'' @ [0x22] @ lit '': '' @
       [0x22] @ lit ''http://ann.example.org'' @ [0x22] @
     [0x0A] @ lit ''  }'' \<and>
   plain (lit ''Ann'') \<and> quote (lit ''Ann'') = [0x22] @ lit ''Ann'' @ [0x22]"
proof -
  have p: "plain (lit ''Ann'')" "plain (lit ''ann@example.org'')"
    "plain (lit ''http://ann.example.org'')"
    by (simp_all add: plain_def lit_def is_high_def is_low_def)
  note a = authorJSON_url_member [of ann "lit ''Ann''"]
  note b = authorJSON_url_member [of ann_url "lit ''ann@example.org''"]
  note c = authorJSON_url_member [of ann_url "lit ''http://ann.example.org''"]
  have q: "quote (lit ''Ann'') = [0x22] @ lit ''Ann'' @ [0x22]"
    "quote (lit ''ann@example.org'') = [0x22] @ lit ''ann@example.org'' @ [0x22]"
    "quote (lit ''http://ann.example.org'') = [0x22] @ lit ''http://ann.example.org'' @ [0x22]"
    using a b c p by simp_all
  have u: "lit ''http://ann.example.org'' \<noteq> []" by (simp add: lit_def)
  have 1: "authorJSON ann =
     lit ''{'' @ [0x0A] @
     lit ''    '' @ [0x22] @ lit ''name'' @ [0x22] @ lit '': '' @ quote (lit ''Ann'') @
     lit '','' @ [0x0A] @
     lit ''    '' @ [0x22] @ lit ''email'' @ [0x22] @ lit '': '' @ quote (lit ''ann@example.org'') @
     [0x0A] @ lit ''  }''"
    using a by (simp add: ann_def Let_def)
  have 2: "authorJSON ann_url =
     lit ''{'' @ [0x0A] @
     lit ''    '' @ [0x22] @ lit ''name'' @ [0x22] @ lit '': '' @ quote (lit ''Ann'') @
     lit '','' @ [0x0A] @
     lit ''    '' @ [0x22] @ lit ''email'' @ [0x22] @ lit '': '' @ quote (lit ''ann@example.org'') @
     lit '','' @ [0x0A] @
     lit ''    '' @ [0x22] @ lit ''url'' @ [0x22] @ lit '': '' @
       quote (lit ''http://ann.example.org'') @
     [0x0A] @ lit ''  }''"
    using c u by (simp add: ann_url_def Let_def)
  show ?thesis unfolding 1 2 q using p(1) by simp
qed

lemma configuring_localStore_writes:
  "writes (configuring_localStore kvs ctx cfg) = writes cfg @ map fst kvs"
  by (induction kvs ctx cfg rule: configuring_localStore.induct) (simp_all add: config_set_def)

text \<open>
  C9 (amended): a run writes every answer of the general questions into Stored
  Preferences, whether or not an entry was already recorded: \<open>configuring.localStore\<close> sets
  each of the six keys to the run's answer, whatever the store held before (in the earlier
  variant the filter of \<open>copyrightYear\<close> sets that key on every run); and on the next run
  the stored answers are read back as the defaults of the questions (in the earlier
  variant a truthy stored \<open>copyrightYear\<close> is the default of that question).
\<close>

theorem localStore_written_and_read_back:
  assumes "ans_libName a = JStr s"
    and "list_all (\<lambda>v. v \<noteq> JUndefined) (map snd (ans_members a))"
  shows "\<exists>ctx'. general_done upper a ctx = Inr (ctx', ans_members a) \<and>
      (let cfg' = configuring_localStore (ans_members a) ctx' cfg in
         writes cfg' = writes cfg @ map fst (ans_members a) \<and>
         map (config_get cfg') (map fst (ans_members a)) = map snd (ans_members a) \<and>
         map pname (general_defaults cfg' cnf year) = map fst (ans_members a) \<and>
         map pdefault (general_defaults cfg' cnf year) = map snd (ans_members a)) \<and>
      writes (snd (old_copyrightYear_filter y cfg)) = writes cfg @ [''copyrightYear''] \<and>
      (if truthy y then old_copyrightYear_default (snd (old_copyrightYear_filter y cfg)) year = y
       else old_copyrightYear_default (snd (old_copyrightYear_filter y cfg)) year = JNum year)"
  using assms
  by (simp add: general_done_def ans_members_def Let_def config_set_def config_get_def
      field_def general_defaults_def general_prompts_def load_previous_def
      old_copyrightYear_filter_def old_copyrightYear_default_def js_or_def)

text \<open>C9 (amended) on a run that answers \<open>new\<close> to a question whose stored answer is
  \<open>old\<close>.\<close>

theorem localStore_written_and_read_back_witness:
  "ans_libName ans_new = JStr (lit ''node-foo'') \<and>
   list_all (\<lambda>v. v \<noteq> JUndefined) (map snd (ans_members ans_new)) \<and>
   (\<exists>ctx'. general_done upper_example ans_new Map.empty = Inr (ctx', ans_members ans_new) \<and>
      writes (configuring_localStore (ans_members ans_new) ctx' cfg_old) =
        [''libName'', ''libDesc'', ''copyrightYear'', ''gulpfile'', ''browser'', ''promises''] \<and>
      map pdefault
        (general_defaults (configuring_localStore (ans_members ans_new) ctx' cfg_old)
           Map.empty 2016) =
        [JStr (lit ''node-foo''), JStr (lit ''new''), JStr (lit ''2015''), JBool False, JBool True, JBool True])"
proof -
  have 1: "ans_libName ans_new = JStr (lit ''node-foo'')" by (simp add: ans_new_def)
  have 2: "list_all (\<lambda>v. v \<noteq> JUndefined) (map snd (ans_members ans_new))"
    by (simp add: ans_new_def ans_members_def)
  have 3: "map snd (ans_members ans_new) =
      [JStr (lit ''node-foo''), JStr (lit ''new''), JStr (lit ''2015''), JBool False, JBool True, JBool True]"
    "map fst (ans_members ans_new) =
      [''libName'', ''libDesc'', ''copyrightYear'', ''gulpfile'', ''browser'', ''promises'']"
    by (simp_all add: ans_new_def ans_members_def)
  have 4: "writes cfg_old = []" by (simp add: cfg_old_def)
  from localStore_written_and_read_back [OF 1 2, of upper_example Map.empty cfg_old Map.empty 2016]
  obtain ctx' where
    c: "general_done upper_example ans_new Map.empty = Inr (ctx', ans_members ans_new)"
    and w: "writes (configuring_localStore (ans_members ans_new) ctx' cfg_old) =
      writes cfg_old @ map fst (ans_members ans_new)"
    and d: "map pdefault
        (general_defaults (configuring_localStore (ans_members ans_new) ctx' cfg_old)
           Map.empty 2016) = map snd (ans_members ans_new)"
    unfolding Let_def by blast
  show ?thesis using 1 2 c w d 3 4 by simp
qed

text \<open>
  Counterexample for C9 as stated: the store already holds an answer for \<open>libDesc\<close> at
  the start of the run, and the run writes \<open>libDesc\<close> all the same, replacing \<open>old\<close> by
  the new answer.
\<close>

theorem localStore_overwrites_counterexample:
  "config_get cfg_old ''libDesc'' = JStr (lit ''old'') \<and>
   (case general_then_localStore upper_example ans_new Map.empty cfg_old of
      Inl e \<Rightarrow> False
    | Inr cfg' \<Rightarrow>
        ''libDesc'' \<in> set (writes cfg') \<and> config_get cfg' ''libDesc'' = JStr (lit ''new''))"
  by (simp add: cfg_old_def ans_new_def general_then_localStore_def general_done_def
      ans_members_def config_set_def config_get_def field_def)

subsection \<open>The Secret Provisioner\<close>

lemma index_from_none: "(index_from i c s = - 1) = (c \<notin> set s)"
  by (induction s arbitrary: i) auto

lemma indexOf_none: "(indexOf s c = - 1) = (c \<notin> set s)"
  by (simp add: indexOf_def index_from_none)

lemma base64_nonempty: "xs \<noteq> [] \<Longrightarrow> base64 xs \<noteq> []"
  by (cases xs rule: base64.cases) simp_all

lemma utf8_unit_nonempty: "utf8_unit u \<noteq> []"
  by (simp add: utf8_unit_def)

lemma utf8_nonempty: "s \<noteq> [] \<Longrightarrow> utf8 s \<noteq> []"
  by (cases s rule: utf8.cases) (simp_all add: utf8_unit_nonempty utf8_pair_def Let_def)

lemma npmApiKey_filter_nonempty: "s \<noteq> [] \<Longrightarrow> npmApiKey_filter s \<noteq> []"
  by (simp add: npmApiKey_filter_def base64_nonempty utf8_nonempty)

lemma mod_64_bound: "(m::nat) mod 64 < 128" "(m::nat) mod 16 < 32"
proof -
  have "m mod 64 < 64" "m mod 16 < 16" by simp_all
  thus "m mod 64 < 128" "m mod 16 < 32" by linarith+
qed

lemma utf8_unit_bytes: "list_all (\<lambda>b. b < 256) (utf8_unit u)"
proof -
  have "u < 2048 \<Longrightarrow> u div 64 < 64"
    by (rule less_mult_imp_div_less) simp
  thus ?thesis by (simp add: utf8_unit_def mod_64_bound)
qed

lemma utf8_pair_bytes: "is_high h \<Longrightarrow> is_low l \<Longrightarrow> list_all (\<lambda>b. b < 256) (utf8_pair h l)"
proof -
  assume h: "is_high h" and l: "is_low l"
  define cp where "cp = 0x10000 + (h - 0xD800) * 1024 + (l - 0xDC00)"
  have "cp < 16 * 262144" using h l unfolding cp_def is_high_def is_low_def by linarith
  hence "cp div 262144 < 16" by (rule less_mult_imp_div_less)
  thus ?thesis by (simp add: utf8_pair_def Let_def cp_def [symmetric] mod_64_bound)
qed

lemma utf8_bytes: "list_all (\<lambda>b. b < 256) (utf8 s)"
  by (induction s rule: utf8.induct) (simp_all add: utf8_unit_bytes utf8_pair_bytes)

lemma utf8_ascii: "list_all (\<lambda>u. u < 128) s \<Longrightarrow> utf8 s = s"
  by (induction s rule: utf8.induct) (auto simp: utf8_unit_def is_high_def)

lemma b64_digits:
  "list_all (\<lambda>n. b64_value (b64_digit n) = n \<and> b64_digit n \<noteq> of_char (CHR ''='')) [0..<64]"
  by code_simp

lemma b64_digit_value: "n < 64 \<Longrightarrow> b64_value (b64_digit n) = n"
  using b64_digits by (simp add: list_all_iff)

lemma b64_digit_not_pad: "n < 64 \<Longrightarrow> b64_digit n \<noteq> 61"
  using b64_digits by (simp add: list_all_iff)

lemma b64_group:
  fixes a b c :: nat
  assumes "a < 256" and "b < 256" and "c < 256"
  shows "a div 4 < 64" and "a mod 4 * 16 + b div 16 < 64" and "b mod 16 * 4 + c div 64 < 64"
    and "c mod 64 < 64" and "a mod 4 * 16 < 64" and "b mod 16 * 4 < 64"
    and "a div 4 * 4 + (a mod 4 * 16 + b div 16) div 16 = a"
    and "(a mod 4 * 16 + b div 16) mod 16 * 16 + (b mod 16 * 4 + c div 64) div 4 = b"
    and "(b mod 16 * 4 + c div 64) mod 4 * 64 + c mod 64 = c"
    and "a div 4 * 4 + a mod 4 * 16 div 16 = a"
    and "(a mod 4 * 16 + b div 16) mod 16 * 16 + b mod 16 * 4 div 4 = b"
proof -
  have m: "a mod 4 < 4" "b mod 16 < 16" "c mod 64 < 64" by simp_all
  have b16: "b div 16 < 16" using assms(2) by (intro less_mult_imp_div_less) simp
  have c64: "c div 64 < 4" using assms(3) by (intro less_mult_imp_div_less) simp
  show "a div 4 < 64" using assms(1) by (intro less_mult_imp_div_less) simp
  show "a mod 4 * 16 + b div 16 < 64" using m b16 by linarith
  show "b mod 16 * 4 + c div 64 < 64" using m c64 by linarith
  show "c mod 64 < 64" by simp
  show "a mod 4 * 16 < 64" using m by linarith
  show "b mod 16 * 4 < 64" using m by linarith
  have e1: "(a mod 4 * 16 + b div 16) div 16 = a mod 4" using b16 by simp
  have e2: "(a mod 4 * 16 + b div 16) mod 16 = b div 16" using b16 by simp
  have e3: "(b mod 16 * 4 + c div 64) div 4 = b mod 16" using c64 by simp
  have e4: "(b mod 16 * 4 + c div 64) mod 4 = c div 64" using c64 by simp
  show "a div 4 * 4 + (a mod 4 * 16 + b div 16) div 16 = a" unfolding e1 by simp
  show "(a mod 4 * 16 + b div 16) mod 16 * 16 + (b mod 16 * 4 + c div 64) div 4 = b"
    unfolding e2 e3 by simp
  show "(b mod 16 * 4 + c div 64) mod 4 * 64 + c mod 64 = c" unfolding e4 by simp
  show "a div 4 * 4 + a mod 4 * 16 div 16 = a" by simp
  show "(a mod 4 * 16 + b div 16) mod 16 * 16 + b mod 16 * 4 div 4 = b" unfolding e2 by simp
qed

lemma base64_decode_base64:
  "list_all (\<lambda>b. b < 256) bs \<Longrightarrow> base64_decode (base64 bs) = bs"
proof (induction bs rule: base64.induct)
  case 1
  show ?case by simp
next
  case (2 a)
  hence a: "a < 256" by simp
  note g = b64_group [OF a a a]
  show ?case using g(10) by (simp add: Let_def b64_digit_value g(1) g(5) pad_def)
next
  case (3 a b)
  hence a: "a < 256" "b < 256" by simp_all
  note g = b64_group [OF a a(2)]
  show ?case using g(7) g(11)
    by (simp add: Let_def b64_digit_value b64_digit_not_pad g(1) g(2) g(6) pad_def)
next
  case (4 a b c r)
  hence a: "a < 256" "b < 256" "c < 256" and r: "list_all (\<lambda>b. b < 256) r" by simp_all
  note g = b64_group [OF a]
  show ?case using g(7) g(8) g(9) "4.IH" [OF r]
    by (simp add: Let_def b64_digit_value b64_digit_not_pad g(1) g(2) g(3) g(4))
qed

lemma length_base64: "length (base64 bs) = 4 * ((length bs + 2) div 3)"
proof (induction bs rule: base64.induct)
  case (4 a b c r)
  have "(length r + 2 + 3) div 3 = (length r + 2) div 3 + 1" by (rule div_add_self2) simp
  thus ?case using "4.IH" by (simp add: add.commute)
qed simp_all

text \<open>
  C5: when the callback gets no credential (no answer, or the empty string) it changes
  nothing: no call of the encryption service, store and log as before; the same holds for a
  whole run of the two questions in which a ciphertext is stored and the operator declines
  to regenerate it. With a credential, a failing encryption call is logged and the store
  is left as it was; a successful one stores the returned ciphertext under
  \<open>travisNpmKey\<close> and logs nothing.
\<close>

theorem genNpmKey_done_cases:
  "(npmApiKey ans = None \<or> npmApiKey ans = Some [] \<longrightarrow>
      genNpmKey_done encrypt repo ans st = st) \<and>
   (truthy (config_get (pconfig st) ''travisNpmKey'') \<and> \<not> regen \<longrightarrow>
      genNpmKey_run encrypt repo regen raw st = st) \<and>
   (npmApiKey ans = Some key \<and> key \<noteq> [] \<and> encrypt (lit ''OADA/'' @ repo) key = Inl e \<longrightarrow>
      pconfig (genNpmKey_done encrypt repo ans st) = pconfig st \<and>
      plog (genNpmKey_done encrypt repo ans st) = plog st @ [e]) \<and>
   (npmApiKey ans = Some key \<and> key \<noteq> [] \<and> encrypt (lit ''OADA/'' @ repo) key = Inr blob \<longrightarrow>
      pconfig (genNpmKey_done encrypt repo ans st) =
        config_set ''travisNpmKey'' (JStr blob) (pconfig st) \<and>
      config_get (pconfig (genNpmKey_done encrypt repo ans st)) ''travisNpmKey'' = JStr blob \<and>
      plog (genNpmKey_done encrypt repo ans st) = plog st)"
  by (auto simp: genNpmKey_done_def genNpmKey_run_def genNpmKey_ask_def Let_def
      config_get_def config_set_def field_def)

text \<open>C5 on a store that holds a ciphertext: no credential, a declined regeneration, a
  failing and a successful encryption.\<close>

theorem genNpmKey_done_cases_witness:
  "genNpmKey_done encrypt_ok (lit ''foo'') \<lparr>genNpmKey = Some False, npmApiKey = None\<rparr> st_stored
     = st_stored \<and>
   truthy (config_get (pconfig st_stored) ''travisNpmKey'') \<and>
   genNpmKey_run encrypt_ok (lit ''foo'') False (lit ''token'') st_stored = st_stored \<and>
   encrypt_fails (lit ''OADA/'' @ lit ''foo'') (lit ''token'') = Inl (Reported ''no public key'') \<and>
   pconfig (genNpmKey_done encrypt_fails (lit ''foo'')
      \<lparr>genNpmKey = Some True, npmApiKey = Some (lit ''token'')\<rparr> st_stored) = pconfig st_stored \<and>
   plog (genNpmKey_done encrypt_fails (lit ''foo'')
      \<lparr>genNpmKey = Some True, npmApiKey = Some (lit ''token'')\<rparr> st_stored)
     = [Reported ''no public key''] \<and>
   encrypt_ok (lit ''OADA/'' @ lit ''foo'') (lit ''token'') = Inr (lit ''cipher of token'') \<and>
   config_get (pconfig (genNpmKey_done encrypt_ok (lit ''foo'')
      \<lparr>genNpmKey = Some True, npmApiKey = Some (lit ''token'')\<rparr> st_stored)) ''travisNpmKey''
     = JStr (lit ''cipher of token'')"
proof -
  have t: "truthy (config_get (pconfig st_stored) ''travisNpmKey'')"
    by (simp add: st_stored_def config_get_def field_def lit_def)
  have f: "encrypt_fails (lit ''OADA/'' @ lit ''foo'') (lit ''token'') = Inl (Reported ''no public key'')"
    by (simp add: encrypt_fails_def)
  have k: "encrypt_ok (lit ''OADA/'' @ lit ''foo'') (lit ''token'') = Inr (lit ''cipher of token'')"
    by (simp add: encrypt_ok_def lit_def)
  have p: "plog st_stored = []" "lit ''token'' \<noteq> []" by (simp_all add: st_stored_def lit_def)
  note a = genNpmKey_done_cases
    [where ans = "\<lparr>genNpmKey = Some False, npmApiKey = None\<rparr>" and encrypt = encrypt_ok
       and repo = "lit ''foo''" and st = st_stored and regen = False and raw = "lit ''token''"
       and key = "lit ''token''" and e = "Reported ''no public key''"
       and blob = "lit ''cipher of token''"]
  note b = genNpmKey_done_cases
    [where ans = "\<lparr>genNpmKey = Some True, npmApiKey = Some (lit ''token'')\<rparr>"
       and encrypt = encrypt_fails and repo = "lit ''foo''" and st = st_stored
       and regen = False and raw = "lit ''token''"
       and key = "lit ''token''" and e = "Reported ''no public key''"
       and blob = "lit ''cipher of token''"]
  note c = genNpmKey_done_cases
    [where ans = "\<lparr>genNpmKey = Some True, npmApiKey = Some (lit ''token'')\<rparr>"
       and encrypt = encrypt_ok and repo = "lit ''foo''" and st = st_stored
       and regen = False and raw = "lit ''token''"
       and key = "lit ''token''" and e = "Reported ''no public key''"
       and blob = "lit ''cipher of token''"]
  from a b c t f k p show ?thesis by (simp add: config_get_def config_set_def field_def)
qed

text \<open>
  C6: the filter of the credential question returns a string without \<open>:\<close> unchanged,
  and turns a string that contains \<open>:\<close> into the base64 text of its UTF-8 bytes: four
  digits for every three bytes, padded, which base64 decoding takes back to those bytes
  (for an ASCII string the bytes are the string itself). Whenever the question is asked
  and the credential is not empty, the encryption service is called once, with the
  filtered string as plaintext.
\<close>

theorem npmApiKey_filter_base64:
  "(of_char (CHR '':'') \<notin> set raw \<longrightarrow> npmApiKey_filter raw = raw) \<and>
   (of_char (CHR '':'') \<in> set raw \<longrightarrow>
      npmApiKey_filter raw = base64 (utf8 raw) \<and>
      base64_decode (npmApiKey_filter raw) = utf8 raw \<and>
      length (npmApiKey_filter raw) = 4 * ((length (utf8 raw) + 2) div 3)) \<and>
   (list_all (\<lambda>u. u < 128) raw \<longrightarrow> utf8 raw = raw) \<and>
   (raw \<noteq> [] \<and> (regen \<or> \<not> truthy (config_get (pconfig st) ''travisNpmKey'')) \<longrightarrow>
      encrypt_calls (genNpmKey_run encrypt repo regen raw st) =
        encrypt_calls st @ [(lit ''OADA/'' @ repo, npmApiKey_filter raw)])"
proof (intro conjI impI)
  assume "of_char (CHR '':'') \<notin> set raw"
  thus "npmApiKey_filter raw = raw"
    by (simp add: npmApiKey_filter_def indexOf_none colon_def)
next
  assume "of_char (CHR '':'') \<in> set raw"
  thus f: "npmApiKey_filter raw = base64 (utf8 raw)"
    by (simp add: npmApiKey_filter_def indexOf_none colon_def)
  show "base64_decode (npmApiKey_filter raw) = utf8 raw"
    unfolding f by (rule base64_decode_base64 [OF utf8_bytes])
  show "length (npmApiKey_filter raw) = 4 * ((length (utf8 raw) + 2) div 3)"
    unfolding f by (rule length_base64)
next
  assume "list_all (\<lambda>u. u < 128) raw"
  thus "utf8 raw = raw" by (rule utf8_ascii)
next
  assume h: "raw \<noteq> [] \<and> (regen \<or> \<not> truthy (config_get (pconfig st) ''travisNpmKey''))"
  hence ne: "npmApiKey_filter raw \<noteq> []" by (simp add: npmApiKey_filter_nonempty)
  have ask: "npmApiKey (genNpmKey_ask (pconfig st) regen raw) = Some (npmApiKey_filter raw)"
    using h by (auto simp: genNpmKey_ask_def Let_def)
  show "encrypt_calls (genNpmKey_run encrypt repo regen raw st) =
        encrypt_calls st @ [(lit ''OADA/'' @ repo, npmApiKey_filter raw)]"
    using ne ask
    by (simp add: genNpmKey_run_def genNpmKey_done_def Let_def split: sum.splits)
qed

text \<open>C6 on a first run (nothing stored) with \<open>user:pass\<close>, on a regeneration with a
  bare token, and for the credential \<open>U+00FC : x\<close>, whose UTF-8 bytes are
  \<open>C3 BC 3A 78\<close>.\<close>

theorem npmApiKey_filter_base64_witness:
  "npmApiKey_filter (lit ''user:pass'') = lit ''dXNlcjpwYXNz'' \<and>
   base64_decode (lit ''dXNlcjpwYXNz'') = lit ''user:pass'' \<and>
   npmApiKey_filter (lit ''token'') = lit ''token'' \<and>
   npmApiKey_filter [0xFC, 0x3A, 0x78] = lit ''w7w6eA=='' \<and>
   base64_decode (lit ''w7w6eA=='') = [0xC3, 0xBC, 0x3A, 0x78] \<and>
   \<not> truthy (config_get (pconfig st_fresh) ''travisNpmKey'') \<and>
   encrypt_calls (genNpmKey_run encrypt_ok (lit ''foo'') False (lit ''user:pass'') st_fresh)
     = [(lit ''OADA/foo'', lit ''dXNlcjpwYXNz'')] \<and>
   encrypt_calls (genNpmKey_run encrypt_ok (lit ''foo'') True (lit ''token'') st_stored)
     = [(lit ''OADA/foo'', lit ''token'')]"
proof -
  have b3: "utf8 (lit ''user:pass'') = lit ''user:pass''"
    by (simp add: lit_def utf8_unit_def is_high_def is_low_def)
  have b4: "utf8 [0xFC, 0x3A, 0x78] = [0xC3, 0xBC, 0x3A, 0x78]"
    by (simp add: utf8_unit_def is_high_def is_low_def)
  have b1: "base64 (utf8 (lit ''user:pass'')) = lit ''dXNlcjpwYXNz''"
    unfolding b3 by code_simp
  have b2: "base64 (utf8 [0xFC, 0x3A, 0x78]) = lit ''w7w6eA==''"
    unfolding b4 by code_simp
  have m1: "of_char (CHR '':'') \<in> set (lit ''user:pass'')" by (simp add: lit_def)
  have m2: "of_char (CHR '':'') \<in> set [0xFC, 0x3A, 0x78]" by simp
  have m3: "of_char (CHR '':'') \<notin> set (lit ''token'')" by (simp add: lit_def)
  have n1: "lit ''user:pass'' \<noteq> []" and n2: "lit ''token'' \<noteq> []"
    by (simp_all add: lit_def)
  have o: "lit ''OADA/'' @ lit ''foo'' = lit ''OADA/foo''" by (simp add: lit_def)
  have t: "\<not> truthy (config_get (pconfig st_fresh) ''travisNpmKey'')"
    by (simp add: st_fresh_def config_get_def field_def)
  have e1: "encrypt_calls st_fresh = []" and e2: "encrypt_calls st_stored = []"
    by (simp_all add: st_fresh_def st_stored_def)
  note x = npmApiKey_filter_base64
    [where raw = "lit ''user:pass''" and regen = False and st = st_fresh
       and encrypt = encrypt_ok and repo = "lit ''foo''"]
  note y = npmApiKey_filter_base64
    [where raw = "lit ''token''" and regen = True and st = st_stored and encrypt = encrypt_ok
       and repo = "lit ''foo''"]
  note z = npmApiKey_filter_base64
    [where raw = "[0xFC, 0x3A, 0x78]" and regen = True and st = st_stored
       and encrypt = encrypt_ok and repo = "lit ''foo''"]
  have x1: "npmApiKey_filter (lit ''user:pass'') = base64 (utf8 (lit ''user:pass''))"
    and x2: "base64_decode (npmApiKey_filter (lit ''user:pass'')) = utf8 (lit ''user:pass'')"
    using x m1 by blast+
  have z1: "npmApiKey_filter [0xFC, 0x3A, 0x78] = base64 (utf8 [0xFC, 0x3A, 0x78])"
    and z2: "base64_decode (npmApiKey_filter [0xFC, 0x3A, 0x78]) = utf8 [0xFC, 0x3A, 0x78]"
    using z m2 by blast+
  have y1: "npmApiKey_filter (lit ''token'') = lit ''token''" using y m3 by blast
  have x3: "encrypt_calls (genNpmKey_run encrypt_ok (lit ''foo'') False (lit ''user:pass'')
      st_fresh) = encrypt_calls st_fresh @
        [(lit ''OADA/'' @ lit ''foo'', npmApiKey_filter (lit ''user:pass''))]"
    using x n1 t by blast
  have y3: "encrypt_calls (genNpmKey_run encrypt_ok (lit ''foo'') True (lit ''token'')
      st_stored) = encrypt_calls st_stored @
        [(lit ''OADA/'' @ lit ''foo'', npmApiKey_filter (lit ''token''))]"
    using y n2 by blast
  have 1: "npmApiKey_filter (lit ''user:pass'') = lit ''dXNlcjpwYXNz''"
    using x1 unfolding b1 .
  have 2: "base64_decode (lit ''dXNlcjpwYXNz'') = lit ''user:pass''"
    using x2 unfolding 1 b3 .
  have 3: "npmApiKey_filter [0xFC, 0x3A, 0x78] = lit ''w7w6eA==''"
    using z1 unfolding b2 .
  have 4: "base64_decode (lit ''w7w6eA=='') = [0xC3, 0xBC, 0x3A, 0x78]"
    using z2 unfolding 3 b4 .
  have 5: "encrypt_calls (genNpmKey_run encrypt_ok (lit ''foo'') False (lit ''user:pass'')
      st_fresh) = [(lit ''OADA/foo'', lit ''dXNlcjpwYXNz'')]"
    using x3 unfolding e1 o 1 by simp
  have 6: "encrypt_calls (genNpmKey_run encrypt_ok (lit ''foo'') True (lit ''token'')
      st_stored) = [(lit ''OADA/foo'', lit ''token'')]"
    using y3 unfolding e2 o y1 by simp
  show ?thesis by (intro conjI 1 2 y1 3 4 t 5 6)
qed

subsection \<open>Template Materializer and Dependency Installer\<close>

lemma lit_eq_iff: "(lit a = lit b) = (a = b)"
proof -
  have "inj (of_char :: char \<Rightarrow> nat)" by (rule injI) simp
  thus ?thesis unfolding lit_def by (simp add: inj_map_eq_map)
qed

lemma destinationPath_names:
  "destinationPath eng (lit ''LICENSE'') = dest_root eng @ [lit ''LICENSE'']"
  "destinationPath eng (lit ''NOTICE'') = dest_root eng @ [lit ''NOTICE'']"
  "destinationPath eng (lit ''AUTHORS'') = dest_root eng @ [lit ''AUTHORS'']"
  "destinationPath eng (lit ''README.md'') = dest_root eng @ [lit ''README.md'']"
  "destinationPath eng (lit ''.editorconfig'') = dest_root eng @ [lit ''.editorconfig'']"
  "destinationPath eng (lit ''.ackrc'') = dest_root eng @ [lit ''.ackrc'']"
  "destinationPath eng (lit ''.jshintrc'') = dest_root eng @ [lit ''.jshintrc'']"
  "destinationPath eng (lit ''.jshintignore'') = dest_root eng @ [lit ''.jshintignore'']"
  "destinationPath eng (lit ''.jscsrc'') = dest_root eng @ [lit ''.jscsrc'']"
  "destinationPath eng (lit ''gulpfile.js'') = dest_root eng @ [lit ''gulpfile.js'']"
  "destinationPath eng (lit ''karma.conf.js'') = dest_root eng @ [lit ''karma.conf.js'']"
  "destinationPath eng (lit ''.istanbul.yml'') = dest_root eng @ [lit ''.istanbul.yml'']"
  "destinationPath eng (lit ''package.json'') = dest_root eng @ [lit ''package.json'']"
  "destinationPath eng (lit ''.gitignore'') = dest_root eng @ [lit ''.gitignore'']"
  "destinationPath eng (lit ''.travis.yml'') = dest_root eng @ [lit ''.travis.yml'']"
  "destinationPath eng (testDir @ lit ''/mocha.opts'') =
     dest_root eng @ [lit ''test'', lit ''mocha.opts'']"
  "destinationPath eng (testDir @ lit ''/.jshintrc'') =
     dest_root eng @ [lit ''test'', lit ''.jshintrc'']"
  "destinationPath eng (lit ''test/setup.js'') = dest_root eng @ [lit ''test'', lit ''setup.js'']"
  by (simp_all add: destinationPath_def is_absolute_def testDir_def lit_def slash_def)

lemmas fs_defs = fs_copy_def fs_copyTpl_def fs_write_def fs_exists_def

lemmas cfg_defs = cfg_license_def cfg_editorconfig_def cfg_ack_def cfg_jshint_def
  cfg_jscs_def cfg_gulp_def cfg_karma_def cfg_mocha_def cfg_istanbul_def cfg_npm_def cfg_git_def
  cfg_travis_def

lemma app_configuring_files:
  "mfs (app_configuring eng cfg st) (destinationPath eng (lit ''README.md'')) =
     mfs st (destinationPath eng (lit ''README.md'')) \<and>
   mfs (app_configuring eng cfg st) (destinationPath eng (lit ''LICENSE'')) =
     Some (tpl eng ''_LICENSE'') \<and>
   mfs (app_configuring eng cfg st) (destinationPath eng (lit ''NOTICE'')) =
     Some (ejs eng (tpl eng ''_NOTICE'') (mcontext st)) \<and>
   mfs (app_configuring eng cfg st) (destinationPath eng (lit ''.travis.yml'')) =
     Some (ejs eng (tpl eng ''travis.yml'')
       ((mcontext st)(''travisNpmKey'' \<mapsto> config_get cfg ''travisNpmKey'')))"
  by (simp add: app_configuring_def cfg_defs fs_defs destinationPath_names lit_eq_iff)

lemma app_configuring_context:
  "mcontext (app_configuring eng cfg st) =
     (mcontext st)(''travisNpmKey'' \<mapsto> config_get cfg ''travisNpmKey'')"
  by (simp add: app_configuring_def cfg_defs fs_defs)

lemma old_configuring_files:
  "mfs (old_configuring eng cfg st) (destinationPath eng (lit ''README.md'')) =
     Some (ejs eng (tpl eng ''_README.md'') (mcontext st))"
  by (simp add: old_configuring_def old_readme_def old_license_def cfg_defs fs_defs
      destinationPath_names lit_eq_iff)

lemma old_configuring_context:
  "mcontext (old_configuring eng cfg st) =
     (mcontext st)(''travisNpmKey'' \<mapsto> config_get cfg ''travisNpmKey'')"
  by (simp add: old_configuring_def old_readme_def old_license_def cfg_defs fs_defs)

lemma app_writing_keeps:
  assumes "field (mcontext st) ''main'' = JStr m" and "mfs st k = Some v"
    and "k \<noteq> destinationPath eng (lit ''test/setup.js'')"
  shows "\<exists>st'. app_writing eng st = Inr st' \<and> mfs st' k = Some v"
proof -
  define s1 where "s1 = wr_readme eng st"
  have 1: "mfs s1 k = Some v" "mcontext s1 = mcontext st" using assms(2)
    by (auto simp: s1_def wr_readme_def fs_defs)
  define s2 where "s2 = wr_authors eng s1"
  have 2: "mfs s2 k = Some v" "mcontext s2 = mcontext st" using 1
    by (auto simp: s2_def wr_authors_def fs_defs)
  define s3 where "s3 = (if fs_exists eng s2 m then s2 else fs_copyTpl eng ''index.js'' m s2)"
  have m: "wr_main eng s2 = Inr s3" using assms(1) 2 by (simp add: wr_main_def s3_def)
  have 3: "mfs s3 k = Some v" using 2
    by (auto simp: s3_def fs_defs)
  have 4: "mfs (wr_test eng s3) k = Some v" using 3 assms(3)
    by (auto simp: wr_test_def fs_defs)
  show ?thesis using m 4
    by (simp add: app_writing_def bindE_def s2_def[symmetric] s1_def[symmetric])
qed

lemma field_upd_other: "k \<noteq> k' \<Longrightarrow> field (obj(k' \<mapsto> v)) k = field obj k"
  by (simp add: field_def)

text \<open>The path of the test file ends in a segment that ends in \<open>.test.js\<close>, so it is not the
  path of \<open>README.md\<close>.\<close>

lemma split_slash_nonempty: "split_slash s \<noteq> []"
  by (induction s) (auto split: list.splits)

lemma split_slash_no_slash: "slash \<notin> set y \<Longrightarrow> split_slash y = [y]"
  by (induction y) (auto split: list.splits)

lemma split_slash_append:
  "slash \<notin> set y \<Longrightarrow>
     split_slash (x @ y) = butlast (split_slash x) @ [last (split_slash x) @ y]"
proof (induction x)
  case Nil
  then show ?case by (simp add: split_slash_no_slash)
next
  case (Cons c cs)
  obtain seg segs where s: "split_slash cs = seg # segs"
    using split_slash_nonempty [of cs] by (cases "split_slash cs") auto
  show ?case using Cons s by (auto split: list.splits)
qed

lemma norm_segments_snoc:
  "s \<noteq> [] \<Longrightarrow> s \<noteq> lit ''.'' \<Longrightarrow> s \<noteq> lit ''..'' \<Longrightarrow>
     norm_segments acc (segs @ [s]) = norm_segments acc segs @ [s]"
  by (induction segs arbitrary: acc) auto

lemma destinationPath_test_js:
  "destinationPath eng (x @ lit ''.test.js'') \<noteq> ys @ [lit ''README.md'']"
proof
  assume eq: "destinationPath eng (x @ lit ''.test.js'') = ys @ [lit ''README.md'']"
  define z where "z = last (split_slash x) @ lit ''.test.js''"
  have ns: "slash \<notin> set (lit ''.test.js'')" by (simp add: lit_def slash_def)
  have len: "8 \<le> length z" by (simp add: z_def lit_def)
  have z: "z \<noteq> []" "z \<noteq> lit ''.''" "z \<noteq> lit ''..''"
    using len by (auto simp: lit_def)
  have "destinationPath eng (x @ lit ''.test.js'') =
      norm_segments (if is_absolute (x @ lit ''.test.js'') then [] else dest_root eng)
        (butlast (split_slash x)) @ [z]"
    unfolding destinationPath_def split_slash_append [OF ns] z_def [symmetric]
    by (rule norm_segments_snoc [OF z])
  with eq have "z = lit ''README.md''" by simp
  hence "last z = last (lit ''README.md'')" by simp
  thus False by (simp add: z_def lit_def)
qed

lemma test_file_not_readme:
  "destinationPath eng (test_file eng st) \<noteq> destinationPath eng (lit ''README.md'')"
proof -
  have "test_file eng st =
      (testDir @ lit ''/'' @ to_string eng (field (mcontext st) ''packageName'')) @
        lit ''.test.js''"
    by (simp add: test_file_def)
  thus ?thesis by (simp only: destinationPath_names destinationPath_test_js not_False_eq_True)
qed

lemma app_materialize_files:
  assumes "mfs st (destinationPath eng (lit ''README.md'')) = Some old"
    and "field (mcontext st) ''main'' = JStr m"
  shows "\<exists>st'. app_materialize eng cfg st = Inr st' \<and>
            mfs st' (destinationPath eng (lit ''README.md'')) = Some old \<and>
            mfs st' (destinationPath eng (lit ''LICENSE'')) = Some (tpl eng ''_LICENSE'') \<and>
            mfs st' (destinationPath eng (lit ''NOTICE'')) =
              Some (ejs eng (tpl eng ''_NOTICE'') (mcontext st)) \<and>
            mfs st' (destinationPath eng (lit ''.travis.yml'')) =
              Some (ejs eng (tpl eng ''travis.yml'')
                ((mcontext st)(''travisNpmKey'' \<mapsto> config_get cfg ''travisNpmKey'')))"
proof -
  define c where "c = app_configuring eng cfg st"
  have main: "field (mcontext c) ''main'' = JStr m"
    using assms(2) by (simp add: c_def app_configuring_context field_upd_other)
  have f: "mfs c (destinationPath eng (lit ''README.md'')) = Some old"
    "mfs c (destinationPath eng (lit ''LICENSE'')) = Some (tpl eng ''_LICENSE'')"
    "mfs c (destinationPath eng (lit ''NOTICE'')) =
       Some (ejs eng (tpl eng ''_NOTICE'') (mcontext st))"
    "mfs c (destinationPath eng (lit ''.travis.yml'')) = Some (ejs eng (tpl eng ''travis.yml'')
        ((mcontext st)(''travisNpmKey'' \<mapsto> config_get cfg ''travisNpmKey'')))"
    using assms(1) app_configuring_files [of eng cfg st] by (simp_all add: c_def)
  have d: "destinationPath eng (lit ''README.md'') \<noteq> destinationPath eng (lit ''test/setup.js'')"
    "destinationPath eng (lit ''LICENSE'') \<noteq> destinationPath eng (lit ''test/setup.js'')"
    "destinationPath eng (lit ''NOTICE'') \<noteq> destinationPath eng (lit ''test/setup.js'')"
    "destinationPath eng (lit ''.travis.yml'') \<noteq> destinationPath eng (lit ''test/setup.js'')"
    by (simp_all add: destinationPath_names)
  obtain st' where r: "app_writing eng c = Inr st'"
    using app_writing_keeps [OF main f(1) d(1)] by auto
  have k: "mfs st' k = Some v"
    if "mfs c k = Some v" "k \<noteq> destinationPath eng (lit ''test/setup.js'')" for k v
    using app_writing_keeps [OF main that] r by simp
  show ?thesis
    using r k [OF f(1) d(1)] k [OF f(2) d(2)] k [OF f(3) d(3)] k [OF f(4) d(4)]
    by (simp add: app_materialize_def c_def [symmetric])
qed

lemma old_materialize_readme:
  assumes "field (mcontext st) ''main'' = JStr m"
  shows "\<exists>st'. old_materialize eng cfg st = Inr st' \<and>
            mfs st' (destinationPath eng (lit ''README.md'')) =
              Some (if destinationPath eng m = destinationPath eng (lit ''README.md'')
                    then ejs eng (tpl eng ''index.js'')
                           ((mcontext st)(''travisNpmKey'' \<mapsto> config_get cfg ''travisNpmKey''))
                    else ejs eng (tpl eng ''_README.md'') (mcontext st))"
proof -
  define c where "c = old_configuring eng cfg st"
  have main: "field (mcontext c) ''main'' = JStr m"
    using assms by (simp add: c_def old_configuring_context field_upd_other)
  have ctx: "mcontext c = (mcontext st)(''travisNpmKey'' \<mapsto> config_get cfg ''travisNpmKey'')"
    by (simp add: c_def old_configuring_context)
  have f: "mfs c (destinationPath eng (lit ''README.md'')) =
      Some (ejs eng (tpl eng ''_README.md'') (mcontext st))"
    by (simp add: c_def old_configuring_files)
  define s where "s = fs_copyTpl eng ''index.js'' m c"
  have t: "destinationPath eng (test_file eng s) \<noteq> destinationPath eng (lit ''README.md'')"
    by (rule test_file_not_readme)
  have r: "old_materialize eng cfg st = Inr (old_test eng s)"
    using main by (simp add: old_materialize_def c_def [symmetric] old_main_def bindE_def s_def)
  have "mfs (old_test eng s) (destinationPath eng (lit ''README.md'')) =
      mfs s (destinationPath eng (lit ''README.md''))"
    using t by (auto simp: old_test_def fs_defs)
  also have "\<dots> = Some (if destinationPath eng m = destinationPath eng (lit ''README.md'')
                    then ejs eng (tpl eng ''index.js'')
                           ((mcontext st)(''travisNpmKey'' \<mapsto> config_get cfg ''travisNpmKey''))
                    else ejs eng (tpl eng ''_README.md'') (mcontext st))"
    using f ctx by (auto simp: s_def fs_defs)
  finally show ?thesis using r by simp
qed

text \<open>
  C3 (amended): in app/index.js, if the destination directory already contains
  \<open>README.md\<close> (and the Context's \<open>main\<close> is a string, so that the run completes), a run of
  the Template Materializer leaves that file's content unchanged, while \<open>LICENSE\<close>,
  \<open>NOTICE\<close> and \<open>.travis.yml\<close> hold the freshly copied or rendered templates whatever was
  there before. In the earlier variant of the generator \<open>README.md\<close> too is written on
  every run, over the existing file: with the rendered \<open>_README.md\<close>, or with the rendered
  \<open>index.js\<close> when \<open>main\<close> resolves to the path of \<open>README.md\<close>.
\<close>

theorem readme_kept_license_overwritten:
  assumes "mfs st (destinationPath eng (lit ''README.md'')) = Some old"
    and "field (mcontext st) ''main'' = JStr m"
  shows "(\<exists>st'. app_materialize eng cfg st = Inr st' \<and>
            mfs st' (destinationPath eng (lit ''README.md'')) = Some old \<and>
            mfs st' (destinationPath eng (lit ''LICENSE'')) = Some (tpl eng ''_LICENSE'') \<and>
            mfs st' (destinationPath eng (lit ''NOTICE'')) =
              Some (ejs eng (tpl eng ''_NOTICE'') (mcontext st)) \<and>
            mfs st' (destinationPath eng (lit ''.travis.yml'')) =
              Some (ejs eng (tpl eng ''travis.yml'')
                ((mcontext st)(''travisNpmKey'' \<mapsto> config_get cfg ''travisNpmKey'')))) \<and>
         (\<exists>st'. old_materialize eng cfg st = Inr st' \<and>
            mfs st' (destinationPath eng (lit ''README.md'')) =
              Some (if destinationPath eng m = destinationPath eng (lit ''README.md'')
                    then ejs eng (tpl eng ''index.js'')
                           ((mcontext st)(''travisNpmKey'' \<mapsto> config_get cfg ''travisNpmKey''))
                    else ejs eng (tpl eng ''_README.md'') (mcontext st)))"
  using app_materialize_files [OF assms] old_materialize_readme [OF assms(2)] by blast

lemma example_paths:
  "destinationPath eng_example (lit ''index.js'') \<noteq>
     destinationPath eng_example (lit ''README.md'')"
  "destinationPath eng_example (lit ''./README.md'') =
     destinationPath eng_example (lit ''README.md'')"
  "destinationPath eng_example (lit ''LICENSE'') \<noteq>
     destinationPath eng_example (lit ''README.md'')"
  by (simp_all add: destinationPath_def is_absolute_def lit_def slash_def)

lemma example_states:
  "mfs dest_example (destinationPath eng_example (lit ''README.md'')) = Some ''my notes''"
  "mfs dest_main_readme (destinationPath eng_example (lit ''README.md'')) = Some ''my notes''"
  "field (mcontext dest_example) ''main'' = JStr (lit ''index.js'')"
  "field (mcontext dest_main_readme) ''main'' = JStr (lit ''./README.md'')"
  using example_paths(3)
  by (simp_all add: dest_example_def dest_main_readme_def ctx_example_def field_def)

text \<open>C3 (amended) on a destination that holds a \<open>README.md\<close> and a \<open>LICENSE\<close> of the
  operator's, and in the earlier variant also with \<open>./README.md\<close> as \<open>main\<close>.\<close>

theorem readme_kept_license_overwritten_witness:
  "file_after eng_example (app_materialize eng_example cfg_old dest_example) (lit ''README.md'')
     = Some ''my notes'' \<and>
   file_after eng_example (app_materialize eng_example cfg_old dest_example) (lit ''LICENSE'')
     = Some ''_LICENSE'' \<and>
   file_after eng_example (app_materialize eng_example cfg_old dest_example) (lit ''NOTICE'')
     = Some ''rendered _NOTICE'' \<and>
   file_after eng_example (app_materialize eng_example cfg_old dest_example) (lit ''.travis.yml'')
     = Some ''rendered travis.yml'' \<and>
   file_after eng_example (old_materialize eng_example cfg_old dest_example) (lit ''README.md'')
     = Some ''rendered _README.md'' \<and>
   file_after eng_example (old_materialize eng_example cfg_old dest_main_readme)
     (lit ''README.md'') = Some ''rendered index.js''"
proof -
  have e: "tpl eng_example = (\<lambda>t. t)" "ejs eng_example = (\<lambda>s c. ''rendered '' @ s)"
    by (simp_all add: eng_example_def)
  note a = readme_kept_license_overwritten
    [OF example_states(1) example_states(3), where cfg = cfg_old]
  note b = readme_kept_license_overwritten
    [OF example_states(2) example_states(4), where cfg = cfg_old]
  from a b show ?thesis
    by (auto simp: file_after_def e example_paths)
qed

text \<open>
  Counterexample for C3 as stated: the earlier variant renders \<open>README.md\<close> in its
  \<open>configuring\<close> phase without looking whether the file exists, so the operator's
  \<open>README.md\<close> is replaced by the rendered template.
\<close>

theorem old_readme_overwritten_counterexample:
  "mfs dest_example (destinationPath eng_example (lit ''README.md'')) = Some ''my notes'' \<and>
   file_after eng_example (old_materialize eng_example cfg_old dest_example) (lit ''README.md'')
     = Some ''rendered _README.md''"
proof -
  have e: "tpl eng_example = (\<lambda>t. t)" "ejs eng_example = (\<lambda>s c. ''rendered '' @ s)"
    by (simp_all add: eng_example_def)
  from old_materialize_readme [OF example_states(3), where eng = eng_example and cfg = cfg_old]
  show ?thesis by (auto simp: file_after_def e example_paths example_states)
qed

text \<open>
  C7: when the flag \<open>promises\<close> is true (truthy), the install invocations of app/index.js
  include \<open>bluebird\<close> as a runtime dependency and \<open>chai-as-promised\<close> as a development
  dependency; when it is false, no invocation names either package.
\<close>

theorem promises_dependencies:
  "(truthy (field ctx ''promises'') \<longrightarrow>
      ([''bluebird''], Save) \<in> set (app_install ctx err) \<and>
      ([''chai-as-promised''], SaveDev) \<in> set (app_install ctx err)) \<and>
   (\<not> truthy (field ctx ''promises'') \<longrightarrow>
      ''bluebird'' \<notin> set (installed (app_install ctx err)) \<and>
      ''chai-as-promised'' \<notin> set (installed (app_install ctx err)))"
  by (simp add: app_install_def installed_def inst_promises_def inst_istanbul_def
      inst_mocha_def inst_chai_def inst_jshint_def inst_jscs_def inst_precommit_def
      inst_gulp_def inst_karma_def)

text \<open>C7 for a Context with \<open>promises\<close> set and for the empty Context.\<close>

theorem promises_dependencies_witness:
  "truthy (field ctx_example ''promises'') \<and>
   ([''bluebird''], Save) \<in> set (app_install ctx_example None) \<and>
   ([''chai-as-promised''], SaveDev) \<in> set (app_install ctx_example None) \<and>
   \<not> truthy (field Map.empty ''promises'') \<and>
   ''bluebird'' \<notin> set (installed (app_install Map.empty None)) \<and>
   ''chai-as-promised'' \<notin> set (installed (app_install Map.empty None))"
  using promises_dependencies [of ctx_example None] promises_dependencies [of Map.empty None]
  by (simp add: ctx_example_def field_def)

end
